theory Spec2Isabelle
  imports Complex_Main "HOL-Library.Sublist"
begin

text \<open>
  A model of \<^verbatim>\<open>financial_agent/analyzer.py\<close>: the classification of one article
  (\<^verbatim>\<open>analyze_article_sentiment\<close>), with its rate limiter and its parsing of the reply of
  the text-generation service, and the synthesis of the report
  (\<^verbatim>\<open>generate_final_report\<close>), with the narrative step and its default lists.

  Every function of the source is a function of the same name here (a leading underscore
  is dropped). A \<^verbatim>\<open>try\<close> block is a function \<open>f_try\<close> whose result is an exception or a
  value, and the function itself is the case distinction its \<^verbatim>\<open>except\<close> clauses make. The
  library and the world outside the repository (\<^verbatim>\<open>json.loads\<close>, \<^verbatim>\<open>str.title\<close>, the
  service, the clock) are the fields of an environment; the mutable state is passed
  explicitly. Judgments are records with the field types the data class declares. Floats
  are exact rationals, so statements about percentages and times hold up to the rounding
  of the floating-point operations.
\<close>

section \<open>Python values\<close>

text \<open>
  A Python \<^verbatim>\<open>str\<close> is a sequence of Unicode code points, so it is modelled as a list of
  naturals: slicing and \<^verbatim>\<open>len\<close> count code points, not bytes. \<open>lit\<close> turns an ASCII
  literal into such a sequence; the bullet of the report texts is the code point 8226.
\<close>

type_synonym pystr = "nat list"

definition lit :: "string \<Rightarrow> pystr" where
  "lit s = map of_char s"

text \<open>
  The values \<^verbatim>\<open>json.loads\<close> can return. Python's \<^verbatim>\<open>int\<close> and \<^verbatim>\<open>float\<close> are both
  \<open>JNum\<close>, with exact rational arithmetic in place of IEEE rounding. A \<^verbatim>\<open>dict\<close> is an
  association list read with \<open>map_of\<close>.
\<close>

datatype json =
    JNull
  | JBool bool
  | JNum rat
  | JStr pystr
  | JArr "json list"
  | JObj "(pystr \<times> json) list"

text \<open>The exceptions the analyzer can meet; \<open>ServiceError\<close> is whatever the Gemini client raises.\<close>

datatype exn =
    JSONDecodeError
  | TypeError
  | AttributeError
  | KeyError
  | ValueError
  | ZeroDivisionError
  | ServiceError

subsection \<open>String operations\<close>

text \<open>\<^verbatim>\<open>str.isspace\<close> on one code point: the whitespace table of CPython.\<close>

definition py_isspace :: "nat \<Rightarrow> bool" where
  "py_isspace c \<longleftrightarrow>
     (9 \<le> c \<and> c \<le> 13) \<or> (28 \<le> c \<and> c \<le> 32) \<or> c = 133 \<or> c = 160 \<or> c = 5760 \<or>
     (8192 \<le> c \<and> c \<le> 8202) \<or> c = 8232 \<or> c = 8233 \<or> c = 8239 \<or> c = 8287 \<or> c = 12288"

text \<open>\<^verbatim>\<open>s.strip()\<close>\<close>

definition py_strip :: "pystr \<Rightarrow> pystr" where
  "py_strip s = rev (dropWhile py_isspace (rev (dropWhile py_isspace s)))"

text \<open>\<^verbatim>\<open>sub in s\<close> for two strings\<close>

fun py_in :: "pystr \<Rightarrow> pystr \<Rightarrow> bool" where
  "py_in sub [] = (sub = [])"
| "py_in sub (c # cs) = (prefix sub (c # cs) \<or> py_in sub cs)"

text \<open>
  \<^verbatim>\<open>s.find(sub, start)\<close>: the least index at or after \<open>start\<close> where \<open>sub\<close> occurs, or \<open>-1\<close>.
  \<open>find_at sub rest i\<close> scans \<open>rest\<close>, the text from index \<open>i\<close> on.
\<close>

fun find_at :: "pystr \<Rightarrow> pystr \<Rightarrow> nat \<Rightarrow> int" where
  "find_at sub [] i = (if sub = [] then int i else - 1)"
| "find_at sub (c # cs) i = (if prefix sub (c # cs) then int i else find_at sub cs (Suc i))"

definition py_find :: "pystr \<Rightarrow> pystr \<Rightarrow> int \<Rightarrow> int" where
  "py_find s sub start =
     (let n = int (length s);
          st = (if start < 0 then max (start + n) 0 else start)
      in if n < st then - 1 else find_at sub (drop (nat st) s) (nat st))"

text \<open>\<^verbatim>\<open>s.rfind(sub)\<close>: the greatest index where \<open>sub\<close> occurs, or \<open>-1\<close>.\<close>

fun rfind_at :: "pystr \<Rightarrow> pystr \<Rightarrow> nat \<Rightarrow> int \<Rightarrow> int" where
  "rfind_at sub [] i found = (if sub = [] then int i else found)"
| "rfind_at sub (c # cs) i found =
     rfind_at sub cs (Suc i) (if prefix sub (c # cs) then int i else found)"

definition py_rfind :: "pystr \<Rightarrow> pystr \<Rightarrow> int" where
  "py_rfind s sub = rfind_at sub s 0 (- 1)"

text \<open>
  \<^verbatim>\<open>s[a:b]\<close>: a negative bound counts from the end, both bounds are clamped to the
  string, and an empty range gives the empty string.
\<close>

definition slice_bound :: "int \<Rightarrow> int \<Rightarrow> int" where
  "slice_bound n i = (if i < 0 then max (i + n) 0 else min i n)"

definition py_slice :: "pystr \<Rightarrow> int \<Rightarrow> int \<Rightarrow> pystr" where
  "py_slice s a b =
     (let n = int (length s); lo = slice_bound n a; hi = slice_bound n b
      in take (nat (hi - lo)) (drop (nat lo) s))"

subsection \<open>Operations on decoded values\<close>

text \<open>\<^verbatim>\<open>key in data\<close>: key lookup in a dict, element test in a list, substring test in a
  string, \<^verbatim>\<open>TypeError\<close> on a number, a boolean or \<^verbatim>\<open>None\<close>.\<close>

fun py_contains :: "json \<Rightarrow> pystr \<Rightarrow> exn + bool" where
  "py_contains (JObj kvs) k = Inr (map_of kvs k \<noteq> None)"
| "py_contains (JArr xs) k = Inr (JStr k \<in> set xs)"
| "py_contains (JStr t) k = Inr (py_in k t)"
| "py_contains _ k = Inl TypeError"

text \<open>\<^verbatim>\<open>data[key]\<close> with a string key: \<^verbatim>\<open>KeyError\<close> on a dict without the key,
  \<^verbatim>\<open>TypeError\<close> on everything that is not a dict.\<close>

fun py_getitem :: "json \<Rightarrow> pystr \<Rightarrow> exn + json" where
  "py_getitem (JObj kvs) k = (case map_of kvs k of None \<Rightarrow> Inl KeyError | Some v \<Rightarrow> Inr v)"
| "py_getitem _ k = Inl TypeError"

text \<open>\<^verbatim>\<open>data.get(key, default)\<close>: only a dict has the method.\<close>

fun py_get :: "json \<Rightarrow> pystr \<Rightarrow> json \<Rightarrow> exn + json" where
  "py_get (JObj kvs) k d = Inr (case map_of kvs k of None \<Rightarrow> d | Some v \<Rightarrow> v)"
| "py_get _ k d = Inl AttributeError"

text \<open>\<^verbatim>\<open>value.strip()\<close>: only a string has the method.\<close>

fun py_strip_method :: "json \<Rightarrow> exn + pystr" where
  "py_strip_method (JStr t) = Inr (py_strip t)"
| "py_strip_method _ = Inl AttributeError"

text \<open>Truth value of a decoded value, as \<^verbatim>\<open>if data:\<close> tests it.\<close>

fun py_truthy :: "json \<Rightarrow> bool" where
  "py_truthy JNull = False"
| "py_truthy (JBool b) = b"
| "py_truthy (JNum x) = (x \<noteq> 0)"
| "py_truthy (JStr t) = (t \<noteq> [])"
| "py_truthy (JArr xs) = (xs \<noteq> [])"
| "py_truthy (JObj kvs) = (kvs \<noteq> [])"

text \<open>A Python list of strings as a value.\<close>

definition str_list :: "pystr list \<Rightarrow> json" where
  "str_list xs = JArr (map JStr xs)"

text \<open>\<^verbatim>\<open>d.get(key, default)\<close> on a dictionary of texts (the article).\<close>

definition dict_get :: "(pystr \<times> pystr) list \<Rightarrow> pystr \<Rightarrow> pystr \<Rightarrow> pystr" where
  "dict_get d k dflt = (case map_of d k of None \<Rightarrow> dflt | Some v \<Rightarrow> v)"

text \<open>Sequencing of steps that may raise: the first exception ends the computation.\<close>

definition bind_exn :: "exn + 'a \<Rightarrow> ('a \<Rightarrow> exn + 'b) \<Rightarrow> exn + 'b" where
  "bind_exn m f = (case m of Inl e \<Rightarrow> Inl e | Inr v \<Rightarrow> f v)"

text \<open>\<^verbatim>\<open>sep.join(xs)\<close>\<close>

fun py_join :: "pystr \<Rightarrow> pystr list \<Rightarrow> pystr" where
  "py_join sep [] = []"
| "py_join sep [x] = x"
| "py_join sep (x # y # ys) = x @ sep @ py_join sep (y # ys)"

text \<open>
  \<^verbatim>\<open>Counter(xs)\<close>: one entry per distinct element, in the order of first appearance (the
  iteration order of the dict), with the number of occurrences.
\<close>

fun counter_add :: "(pystr \<times> nat) list \<Rightarrow> pystr \<Rightarrow> (pystr \<times> nat) list" where
  "counter_add [] k = [(k, 1)]"
| "counter_add ((k', c) # rest) k =
     (if k' = k then (k', c + 1) # rest else (k', c) # counter_add rest k)"

definition Counter :: "pystr list \<Rightarrow> (pystr \<times> nat) list" where
  "Counter xs = foldl counter_add [] xs"

text \<open>
  \<^verbatim>\<open>max(items, key=lambda x: x[1])\<close>: \<^verbatim>\<open>ValueError\<close> on an empty sequence; among several
  maximal items the first one met is returned.
\<close>

fun py_max_by_value :: "(pystr \<times> rat) list \<Rightarrow> exn + (pystr \<times> rat)" where
  "py_max_by_value [] = Inl ValueError"
| "py_max_by_value (x # xs) =
     Inr (foldl (\<lambda>best y. if snd best < snd y then y else best) x xs)"

section \<open>The environment of the analyzer\<close>

text \<open>What one request to the text-generation service gives: an exception (from the call
  or from reading \<^verbatim>\<open>response.text\<close>) or the text of the reply.\<close>

datatype outcome = Raises | Text pystr

text \<open>
  The library and the outside world, which the repository does not contain:
  \<^item> \<open>json_loads\<close> is \<^verbatim>\<open>json.loads\<close>, \<open>None\<close> when it raises \<^verbatim>\<open>JSONDecodeError\<close>;
  \<^item> \<open>str_title\<close> is \<^verbatim>\<open>str.title\<close> (it needs the Unicode case tables);
  \<^item> \<open>generate_content n prompt\<close> is the outcome of the \<open>n\<close>-th request sent to the service;
  \<^item> \<open>latency n\<close> is the time the \<open>n\<close>-th request takes;
  \<^item> \<open>oversleep\<close> is how much longer than asked \<^verbatim>\<open>time.sleep\<close> suspends;
  \<^item> \<open>strftime t\<close> is \<^verbatim>\<open>time.strftime("%Y-%m-%d %H:%M:%S")\<close> at clock reading \<open>t\<close>.
\<close>

record env =
  json_loads :: "pystr \<Rightarrow> json option"
  str_title :: "pystr \<Rightarrow> pystr"
  generate_content :: "nat \<Rightarrow> pystr \<Rightarrow> outcome"
  latency :: "nat \<Rightarrow> rat"
  oversleep :: rat
  strftime :: "rat \<Rightarrow> pystr"

text \<open>
  The mutable state: \<open>last_request_time\<close> and \<open>min_request_interval\<close> are the fields of
  the \<^verbatim>\<open>SentimentAnalyzer\<close> instance; \<open>clock\<close> is what \<^verbatim>\<open>time.time()\<close> returns and
  \<open>requests\<close> counts the requests sent to the service so far.
\<close>

record state =
  clock :: rat
  requests :: nat
  last_request_time :: rat
  min_request_interval :: rat

text \<open>\<^verbatim>\<open>__init__\<close>, run when the clock shows \<open>t\<close>.\<close>

definition init_state :: "rat \<Rightarrow> state" where
  "init_state t =
     \<lparr>clock = t, requests = 0, last_request_time = 0, min_request_interval = 5\<rparr>"

text \<open>\<^verbatim>\<open>time.sleep(d)\<close>: the clock moves on by \<open>d\<close> and by the overshoot.\<close>

definition time_sleep :: "env \<Rightarrow> rat \<Rightarrow> state \<Rightarrow> state" where
  "time_sleep ev d s = s\<lparr>clock := clock s + d + oversleep ev\<rparr>"

text \<open>\<^verbatim>\<open>_rate_limit\<close>: two readings of the clock, with the sleep between them when the
  last request is too recent; the second reading is stored.\<close>

definition rate_limit :: "env \<Rightarrow> state \<Rightarrow> state" where
  "rate_limit ev s =
     (let current_time = clock s;
          time_since_last = current_time - last_request_time s;
          s1 = (if time_since_last < min_request_interval s
                then time_sleep ev (min_request_interval s - time_since_last) s
                else s)
      in s1\<lparr>last_request_time := clock s1\<rparr>)"

text \<open>\<^verbatim>\<open>self.model.generate_content(prompt)\<close> followed by \<^verbatim>\<open>response.text\<close>.\<close>

definition send_request :: "env \<Rightarrow> pystr \<Rightarrow> state \<Rightarrow> outcome \<times> state" where
  "send_request ev prompt s =
     (generate_content ev (requests s) prompt,
      s\<lparr>clock := clock s + latency ev (requests s), requests := Suc (requests s)\<rparr>)"

section \<open>The data classes\<close>

text \<open>The confidence is whatever value the decoded reply holds: the annotation
  \<^verbatim>\<open>float\<close> of the data class is not enforced.\<close>

record SentimentResult =
  sentiment :: pystr
  reasoning :: pystr
  confidence :: json
  article_title :: pystr
  article_source :: pystr

text \<open>\<open>bull_case\<close> and \<open>bear_case\<close> are values: a successful narrative reply is stored as
  decoded, whatever its shape.\<close>

record SentimentReport =
  overall_sentiment :: pystr
  sentiment_breakdown :: "(pystr \<times> nat) list"
  sentiment_percentages :: "(pystr \<times> rat) list"
  bull_case :: json
  bear_case :: json
  total_articles :: nat
  analyzed_articles :: nat
  analysis_timestamp :: pystr

definition Positive :: pystr where
  "Positive = lit ''Positive''"

definition Negative :: pystr where
  "Negative = lit ''Negative''"

definition Neutral :: pystr where
  "Neutral = lit ''Neutral''"

section \<open>Rate-limited classification of one article\<close>

definition create_analysis_prompt :: "pystr \<Rightarrow> pystr" where
  \<open>create_analysis_prompt article_text =
     lit ''You are a senior financial analyst with expertise in market sentiment analysis. \<newline>'' @
     lit ''Analyze the following news article from an investor'' @ [39] @
     lit ''s perspective and determine its sentiment regarding the company.\<newline>'' @
     lit ''\<newline>Article Text:\<newline>'' @
     article_text @
     lit ''\<newline>\<newline>Instructions:\<newline>'' @
     lit ''1. Determine the overall sentiment as either "Positive", "Negative", or "Neutral"\<newline>'' @
     lit ''2. Provide clear reasoning for your sentiment classification\<newline>'' @
     lit ''3. Consider factors like:\<newline>'' @
     lit ''   - Financial performance implications\<newline>'' @
     lit ''   - Market impact potential\<newline>'' @
     lit ''   - Strategic developments\<newline>'' @
     lit ''   - Regulatory or competitive threats\<newline>'' @
     lit ''   - Growth prospects\<newline>'' @
     lit ''   - Risk factors\<newline>'' @
     lit ''\<newline>Return your analysis in the following JSON format:\<newline>'' @
     lit ''{\<newline>'' @
     lit ''    "sentiment": "Positive/Negative/Neutral",\<newline>'' @
     lit ''    "reasoning": "Detailed explanation of your sentiment analysis",\<newline>'' @
     lit ''    "confidence": 0.85\<newline>'' @
     lit ''}\<newline>'' @
     lit ''\<newline>Be objective and focus on investment implications rather than general news sentiment.''\<close>

text \<open>
  The search for the JSON text, written twice in the source with the same statements (in
  \<^verbatim>\<open>_parse_sentiment_response\<close> and in \<^verbatim>\<open>_parse_bull_bear_response\<close>): a fence
  \<^verbatim>\<open>```json\<close> wins, with the text up to the next fence stripped; without a closing fence
  \<^verbatim>\<open>find\<close> gives \<open>-1\<close> and the slice drops the last character. Otherwise the text from
  the first opening brace to the last closing brace. \<open>None\<close> is the \<^verbatim>\<open>else\<close> branch.
\<close>

definition extract_json_text :: "pystr \<Rightarrow> pystr option" where
  \<open>extract_json_text cleaned_text =
     (if py_in (lit ''```json'') cleaned_text then
        (let json_start = py_find cleaned_text (lit ''```json'') 0 + 7;
             json_end = py_find cleaned_text (lit ''```'') json_start
         in Some (py_strip (py_slice cleaned_text json_start json_end)))
      else if py_in (lit ''{'') cleaned_text \<and> py_in (lit ''}'') cleaned_text then
        (let json_start = py_find cleaned_text (lit ''{'') 0;
             json_end = py_rfind cleaned_text (lit ''}'') + 1
         in Some (py_slice cleaned_text json_start json_end))
      else None)\<close>

text \<open>The dict \<^verbatim>\<open>_parse_sentiment_response\<close> returns.\<close>

record parsed_reply =
  parsed_sentiment :: pystr
  parsed_reasoning :: pystr
  parsed_confidence :: json

text \<open>The checks on the decoded reply; \<^verbatim>\<open>or\<close> does not look at the second field when the
  first is missing.\<close>

definition check_sentiment_data :: "env \<Rightarrow> json \<Rightarrow> exn + parsed_reply option" where
  "check_sentiment_data ev sentiment_data =
     bind_exn (py_contains sentiment_data (lit ''sentiment'')) (\<lambda>has_sentiment.
     bind_exn (if has_sentiment then py_contains sentiment_data (lit ''reasoning'') else Inr False)
       (\<lambda>has_reasoning.
     if \<not> has_sentiment \<or> \<not> has_reasoning then Inr None
     else
       bind_exn (py_getitem sentiment_data (lit ''sentiment'')) (\<lambda>raw_sentiment.
       bind_exn (py_strip_method raw_sentiment) (\<lambda>stripped.
       let label = str_title ev stripped in
       if label \<notin> set [Positive, Negative, Neutral] then Inr None
       else
         bind_exn (py_getitem sentiment_data (lit ''reasoning'')) (\<lambda>raw_reasoning.
         bind_exn (py_strip_method raw_reasoning) (\<lambda>stripped_reasoning.
         bind_exn (py_get sentiment_data (lit ''confidence'') (JNum (4 / 5))) (\<lambda>conf.
         Inr (Some \<lparr>parsed_sentiment = label,
                     parsed_reasoning = stripped_reasoning,
                     parsed_confidence = conf\<rparr>))))))))"

text \<open>The body of the \<^verbatim>\<open>try\<close> block of \<^verbatim>\<open>_parse_sentiment_response\<close>.\<close>

definition parse_sentiment_response_try :: "env \<Rightarrow> pystr \<Rightarrow> exn + parsed_reply option" where
  "parse_sentiment_response_try ev response_text =
     (let cleaned_text = py_strip response_text
      in case extract_json_text cleaned_text of
           None \<Rightarrow> Inr None
         | Some json_text \<Rightarrow>
             (case json_loads ev json_text of
                None \<Rightarrow> Inl JSONDecodeError
              | Some sentiment_data \<Rightarrow> check_sentiment_data ev sentiment_data))"

text \<open>Both \<^verbatim>\<open>except\<close> clauses return \<^verbatim>\<open>None\<close>.\<close>

definition parse_sentiment_response :: "env \<Rightarrow> pystr \<Rightarrow> parsed_reply option" where
  "parse_sentiment_response ev response_text =
     (case parse_sentiment_response_try ev response_text of
        Inl e \<Rightarrow> None
      | Inr r \<Rightarrow> r)"

text \<open>The body of the \<^verbatim>\<open>try\<close> block of \<^verbatim>\<open>analyze_article_sentiment\<close>; the article is a
  dictionary of texts.\<close>

definition analyze_article_sentiment_try ::
  "env \<Rightarrow> state \<Rightarrow> (pystr \<times> pystr) list \<Rightarrow> state \<times> (exn + SentimentResult option)" where
  "analyze_article_sentiment_try ev s article =
     (let s1 = rate_limit ev s;
          title = dict_get article (lit ''title'') [];
          description = dict_get article (lit ''description'') [];
          content = dict_get article (lit ''content'') [];
          source = dict_get article (lit ''source'') (lit ''Unknown'');
          full_text = lit ''Title: '' @ title @ lit ''\<newline>\<newline>Description: '' @ description @
                      lit ''\<newline>\<newline>Content: '' @ content;
          prompt = create_analysis_prompt full_text;
          (response, s2) = send_request ev prompt s1
      in case response of
           Raises \<Rightarrow> (s2, Inl ServiceError)
         | Text response_text \<Rightarrow>
             if response_text = [] then (s2, Inr None)
             else (case parse_sentiment_response ev response_text of
                     None \<Rightarrow> (s2, Inr None)
                   | Some sentiment_data \<Rightarrow>
                       (s2, Inr (Some \<lparr>sentiment = parsed_sentiment sentiment_data,
                                        reasoning = parsed_reasoning sentiment_data,
                                        confidence = parsed_confidence sentiment_data,
                                        article_title = title,
                                        article_source = source\<rparr>))))"

text \<open>\<^verbatim>\<open>except Exception\<close>: the exception is logged and the result is \<^verbatim>\<open>None\<close>.\<close>

definition analyze_article_sentiment ::
  "env \<Rightarrow> state \<Rightarrow> (pystr \<times> pystr) list \<Rightarrow> state \<times> SentimentResult option" where
  "analyze_article_sentiment ev s article =
     (case analyze_article_sentiment_try ev s article of
        (s', Inl e) \<Rightarrow> (s', None)
      | (s', Inr r) \<Rightarrow> (s', r))"

text \<open>
  The loop of \<^verbatim>\<open>perform_analysis\<close> in \<^verbatim>\<open>app.py\<close>: every article is analysed in turn and
  the results that are not \<^verbatim>\<open>None\<close> are collected in order.
\<close>

fun analyze_articles ::
  "env \<Rightarrow> state \<Rightarrow> (pystr \<times> pystr) list list \<Rightarrow> state \<times> SentimentResult list" where
  "analyze_articles ev s [] = (s, [])"
| "analyze_articles ev s (article # rest) =
     (case analyze_article_sentiment ev s article of
        (s1, result) \<Rightarrow>
          (case analyze_articles ev s1 rest of
             (s2, sentiment_results) \<Rightarrow>
               (s2, (case result of
                       None \<Rightarrow> sentiment_results
                     | Some r \<Rightarrow> r # sentiment_results))))"

section \<open>Report synthesis\<close>

definition create_empty_report :: "env \<Rightarrow> state \<Rightarrow> pystr \<Rightarrow> SentimentReport" where
  "create_empty_report ev s company_name =
     \<lparr>overall_sentiment = Neutral,
      sentiment_breakdown = [(Neutral, 0)],
      sentiment_percentages = [(Neutral, 100)],
      bull_case = str_list [[8226, 32] @ lit ''No recent news available for analysis''],
      bear_case = str_list [[8226, 32] @ lit ''No recent news available for analysis''],
      total_articles = 0,
      analyzed_articles = 0,
      analysis_timestamp = strftime ev (clock s)\<rparr>"

definition determine_overall_sentiment :: "(pystr \<times> rat) list \<Rightarrow> exn + pystr" where
  "determine_overall_sentiment percentages =
     bind_exn (py_max_by_value percentages) (\<lambda>max_sentiment.
       if snd max_sentiment < 40 then Inr Neutral else Inr (fst max_sentiment))"

definition create_bull_bear_prompt :: "pystr \<Rightarrow> pystr list \<Rightarrow> pystr list \<Rightarrow> pystr" where
  \<open>create_bull_bear_prompt company_name positive_reasoning negative_reasoning =
     lit ''You are a financial analyst summarizing market sentiment for '' @ company_name @
     lit ''.\<newline>\<newline>'' @
     lit ''Based on the following sentiment analysis data, create a Bull Case and Bear Case:\<newline>'' @
     lit ''\<newline>POSITIVE REASONING (from positive sentiment articles):\<newline>'' @
     py_join [10] (map (\<lambda>reason. lit ''- '' @ reason) (take 5 positive_reasoning)) @
     lit ''\<newline>\<newline>NEGATIVE REASONING (from negative sentiment articles):\<newline>'' @
     py_join [10] (map (\<lambda>reason. lit ''- '' @ reason) (take 5 negative_reasoning)) @
     lit ''\<newline>\<newline>Instructions:\<newline>'' @
     lit ''1. Create 3-5 compelling Bull Case points based on positive sentiment\<newline>'' @
     lit ''2. Create 3-5 concerning Bear Case points based on negative sentiment\<newline>'' @
     lit ''3. Focus on investment implications and market impact\<newline>'' @
     lit ''4. Be specific and actionable\<newline>'' @
     lit ''5. Use bullet points for clarity\<newline>'' @
     lit ''\<newline>Return in this JSON format:\<newline>'' @
     lit ''{\<newline>'' @
     lit ''    "bull_case": [\<newline>'' @
     lit ''        "Point 1 about positive developments",\<newline>'' @
     lit ''        "Point 2 about growth opportunities",\<newline>'' @
     lit ''        "Point 3 about competitive advantages"\<newline>'' @
     lit ''    ],\<newline>'' @
     lit ''    "bear_case": [\<newline>'' @
     lit ''        "Point 1 about risks and challenges",\<newline>'' @
     lit ''        "Point 2 about market concerns",\<newline>'' @
     lit ''        "Point 3 about potential headwinds"\<newline>'' @
     lit ''    ]\<newline>'' @
     lit ''}''\<close>

text \<open>\<^verbatim>\<open>_parse_bull_bear_response\<close>: the decoded value as it is, \<^verbatim>\<open>None\<close> when no JSON
  text is found or decoding raises.\<close>

definition parse_bull_bear_response :: "env \<Rightarrow> pystr \<Rightarrow> json option" where
  "parse_bull_bear_response ev response_text =
     (let cleaned_text = py_strip response_text
      in case extract_json_text cleaned_text of
           None \<Rightarrow> None
         | Some json_text \<Rightarrow> json_loads ev json_text)"

text \<open>One entry of the default lists: \<^verbatim>\<open>f"\<bullet> {result.reasoning[:100]}..."\<close>.\<close>

definition default_point :: "SentimentResult \<Rightarrow> pystr" where
  "default_point result = [8226, 32] @ take 100 (reasoning result) @ lit ''...''"

text \<open>The \<^verbatim>\<open>for\<close> loop of \<^verbatim>\<open>_create_default_bull_bear_cases\<close>, with the two lists it
  appends to.\<close>

fun default_loop ::
  "SentimentResult list \<Rightarrow> pystr list \<Rightarrow> pystr list \<Rightarrow> pystr list \<times> pystr list" where
  "default_loop [] bull bear = (bull, bear)"
| "default_loop (result # rest) bull bear =
     (if sentiment result = Positive then default_loop rest (bull @ [default_point result]) bear
      else if sentiment result = Negative then default_loop rest bull (bear @ [default_point result])
      else default_loop rest bull bear)"

definition create_default_bull_bear_cases ::
  "SentimentResult list \<Rightarrow> pystr list \<times> pystr list" where
  "create_default_bull_bear_cases sentiment_results =
     (let (bull0, bear0) = default_loop sentiment_results [] [];
          bull1 = (if bull0 = []
                   then [[8226, 32] @ lit ''Positive market sentiment detected in recent news'']
                   else bull0);
          bear1 = (if bear0 = []
                   then [[8226, 32] @ lit ''Some concerns identified in recent coverage'']
                   else bear0)
      in (take 5 bull1, take 5 bear1))"

text \<open>The two default lists as the values the report stores.\<close>

definition default_cases :: "SentimentResult list \<Rightarrow> json \<times> json" where
  "default_cases sentiment_results =
     (case create_default_bull_bear_cases sentiment_results of
        (bull, bear) \<Rightarrow> (str_list bull, str_list bear))"

text \<open>The body of the \<^verbatim>\<open>try\<close> block of \<^verbatim>\<open>_generate_bull_bear_cases\<close>.\<close>

definition generate_bull_bear_cases_try ::
  "env \<Rightarrow> state \<Rightarrow> SentimentResult list \<Rightarrow> pystr \<Rightarrow> state \<times> (exn + json \<times> json)" where
  "generate_bull_bear_cases_try ev s sentiment_results company_name =
     (let positive_reasoning =
            map reasoning (filter (\<lambda>result. sentiment result = Positive) sentiment_results);
          negative_reasoning =
            map reasoning (filter (\<lambda>result. sentiment result = Negative) sentiment_results);
          prompt = create_bull_bear_prompt company_name positive_reasoning negative_reasoning;
          s1 = rate_limit ev s;
          (response, s2) = send_request ev prompt s1
      in case response of
           Raises \<Rightarrow> (s2, Inl ServiceError)
         | Text response_text \<Rightarrow>
             if response_text = [] then (s2, Inr (default_cases sentiment_results))
             else (case parse_bull_bear_response ev response_text of
                     None \<Rightarrow> (s2, Inr (default_cases sentiment_results))
                   | Some bull_bear_data \<Rightarrow>
                       if py_truthy bull_bear_data then
                         (s2, bind_exn (py_getitem bull_bear_data (lit ''bull_case'')) (\<lambda>bull.
                              bind_exn (py_getitem bull_bear_data (lit ''bear_case'')) (\<lambda>bear.
                              Inr (bull, bear))))
                       else (s2, Inr (default_cases sentiment_results))))"

text \<open>\<^verbatim>\<open>except Exception\<close>: the default lists.\<close>

definition generate_bull_bear_cases ::
  "env \<Rightarrow> state \<Rightarrow> SentimentResult list \<Rightarrow> pystr \<Rightarrow> state \<times> json \<times> json" where
  "generate_bull_bear_cases ev s sentiment_results company_name =
     (case generate_bull_bear_cases_try ev s sentiment_results company_name of
        (s', Inl e) \<Rightarrow> (s', default_cases sentiment_results)
      | (s', Inr cases) \<Rightarrow> (s', cases))"

text \<open>The dict comprehension of the percentages: \<^verbatim>\<open>(count / total_articles) * 100\<close> for
  each entry of the tally; the division raises when the total is zero.\<close>

definition percentages_of :: "(pystr \<times> nat) list \<Rightarrow> nat \<Rightarrow> exn + (pystr \<times> rat) list" where
  "percentages_of sentiment_counts n_total =
     (if sentiment_counts \<noteq> [] \<and> n_total = 0 then Inl ZeroDivisionError
      else Inr (map (\<lambda>(label, n). (label, (of_nat n / of_nat n_total) * 100)) sentiment_counts))"

text \<open>
  An element of the list handed to \<^verbatim>\<open>generate_final_report\<close>. Python does not check the
  annotation \<^verbatim>\<open>List[SentimentResult]\<close>: an element is an instance of the data class or
  any other object (\<^verbatim>\<open>None\<close>, say), on which reading \<^verbatim>\<open>.sentiment\<close> raises
  \<^verbatim>\<open>AttributeError\<close>.
\<close>

datatype pyobj = Judgment SentimentResult | NotAJudgment

text \<open>The attribute reads of \<^verbatim>\<open>[result.sentiment for result in sentiment_results]\<close>: the
  instances behind the elements, or the exception of the first element that is none.\<close>

fun results_of :: "pyobj list \<Rightarrow> exn + SentimentResult list" where
  "results_of [] = Inr []"
| "results_of (NotAJudgment # rest) = Inl AttributeError"
| "results_of (Judgment result # rest) =
     bind_exn (results_of rest) (\<lambda>results. Inr (result # results))"

text \<open>The body of the \<^verbatim>\<open>try\<close> block of \<^verbatim>\<open>generate_final_report\<close>, on any list.\<close>

definition generate_final_report_any_try ::
  "env \<Rightarrow> state \<Rightarrow> pyobj list \<Rightarrow> pystr \<Rightarrow> state \<times> (exn + SentimentReport)" where
  "generate_final_report_any_try ev s sentiment_results company_name =
     (if sentiment_results = [] then (s, Inr (create_empty_report ev s company_name))
      else
        (case results_of sentiment_results of
           Inl e \<Rightarrow> (s, Inl e)
         | Inr results \<Rightarrow>
             (let sentiments = map sentiment results;
                  sentiment_counts = Counter sentiments;
                  n_total = length sentiment_results
              in case percentages_of sentiment_counts n_total of
                   Inl e \<Rightarrow> (s, Inl e)
                 | Inr percentages \<Rightarrow>
                     (case determine_overall_sentiment percentages of
                        Inl e \<Rightarrow> (s, Inl e)
                      | Inr overall \<Rightarrow>
                          (case generate_bull_bear_cases ev s results company_name of
                             (s', bull, bear) \<Rightarrow>
                               (s', Inr \<lparr>overall_sentiment = overall,
                                         sentiment_breakdown = sentiment_counts,
                                         sentiment_percentages = percentages,
                                         bull_case = bull,
                                         bear_case = bear,
                                         total_articles = n_total,
                                         analyzed_articles = length sentiment_results,
                                         analysis_timestamp = strftime ev (clock s')\<rparr>))))))"

text \<open>\<^verbatim>\<open>generate_final_report\<close> on any list: \<^verbatim>\<open>except Exception\<close> returns the empty
  report.\<close>

definition generate_final_report_any ::
  "env \<Rightarrow> state \<Rightarrow> pyobj list \<Rightarrow> pystr \<Rightarrow> state \<times> SentimentReport" where
  "generate_final_report_any ev s sentiment_results company_name =
     (case generate_final_report_any_try ev s sentiment_results company_name of
        (s', Inl e) \<Rightarrow> (s', create_empty_report ev s' company_name)
      | (s', Inr report) \<Rightarrow> (s', report))"

text \<open>\<^verbatim>\<open>generate_final_report\<close> on a list of judgments, as its signature declares.\<close>

definition generate_final_report ::
  "env \<Rightarrow> state \<Rightarrow> SentimentResult list \<Rightarrow> pystr \<Rightarrow> state \<times> SentimentReport" where
  "generate_final_report ev s sentiment_results company_name =
     generate_final_report_any ev s (map Judgment sentiment_results) company_name"

section \<open>Notions used in the statements\<close>

text \<open>The prompt \<^verbatim>\<open>analyze_article_sentiment\<close> sends for an article.\<close>

definition article_prompt :: "(pystr \<times> pystr) list \<Rightarrow> pystr" where
  "article_prompt article =
     create_analysis_prompt
       (lit ''Title: '' @ dict_get article (lit ''title'') [] @
        lit ''\<newline>\<newline>Description: '' @ dict_get article (lit ''description'') [] @
        lit ''\<newline>\<newline>Content: '' @ dict_get article (lit ''content'') [])"

text \<open>The prompt \<^verbatim>\<open>_generate_bull_bear_cases\<close> sends for a list of judgments.\<close>

definition narrative_prompt :: "pystr \<Rightarrow> SentimentResult list \<Rightarrow> pystr" where
  "narrative_prompt company_name sentiment_results =
     create_bull_bear_prompt company_name
       (map reasoning (filter (\<lambda>result. sentiment result = Positive) sentiment_results))
       (map reasoning (filter (\<lambda>result. sentiment result = Negative) sentiment_results))"

text \<open>A confidence value that is a number between 0 and 1.\<close>

definition confidence_in_range :: "json \<Rightarrow> bool" where
  "confidence_in_range v = (case v of JNum x \<Rightarrow> 0 \<le> x \<and> x \<le> 1 | _ \<Rightarrow> False)"

text \<open>The share of a label among the judgments, in percent.\<close>

definition label_percentage :: "SentimentResult list \<Rightarrow> pystr \<Rightarrow> rat" where
  "label_percentage sentiment_results label =
     100 * of_nat (count_list (map sentiment sentiment_results) label) /
       of_nat (length sentiment_results)"

text \<open>A bull or bear list of the report with at least one and at most five entries.\<close>

definition case_list_ok :: "json \<Rightarrow> bool" where
  "case_list_ok v = (case v of JArr xs \<Rightarrow> 1 \<le> length xs \<and> length xs \<le> 5 | _ \<Rightarrow> False)"

section \<open>A deterministic stub environment\<close>

text \<open>\<^verbatim>\<open>str.title\<close> on ASCII text: the first letter of each run of letters in upper case,
  the others in lower case.\<close>

definition is_ascii_letter :: "nat \<Rightarrow> bool" where
  "is_ascii_letter c \<longleftrightarrow> (65 \<le> c \<and> c \<le> 90) \<or> (97 \<le> c \<and> c \<le> 122)"

definition ascii_upper :: "nat \<Rightarrow> nat" where
  "ascii_upper c = (if 97 \<le> c \<and> c \<le> 122 then c - 32 else c)"

definition ascii_lower :: "nat \<Rightarrow> nat" where
  "ascii_lower c = (if 65 \<le> c \<and> c \<le> 90 then c + 32 else c)"

fun title_from :: "bool \<Rightarrow> pystr \<Rightarrow> pystr" where
  "title_from previous_is_cased [] = []"
| "title_from previous_is_cased (c # cs) =
     (if previous_is_cased then ascii_lower c else ascii_upper c) #
     title_from (is_ascii_letter c) cs"

definition ascii_title :: "pystr \<Rightarrow> pystr" where
  "ascii_title s = title_from False s"

text \<open>\<^verbatim>\<open>json.loads\<close> on the texts the examples below decode; every other text met there
  is not JSON.\<close>

definition stub_json_loads :: "pystr \<Rightarrow> json option" where
  \<open>stub_json_loads = map_of
     [(lit ''{"sentiment":"positive","reasoning":"x","confidence":0.9}'',
       JObj [(lit ''sentiment'', JStr (lit ''positive'')), (lit ''reasoning'', JStr (lit ''x'')),
             (lit ''confidence'', JNum (9 / 10))]),
      (lit ''{"sentiment":"Neutral","reasoning":"y"}'',
       JObj [(lit ''sentiment'', JStr (lit ''Neutral'')), (lit ''reasoning'', JStr (lit ''y''))]),
      (lit ''{"sentiment": "Positive", "reasoning": 5}'',
       JObj [(lit ''sentiment'', JStr (lit ''Positive'')), (lit ''reasoning'', JNum 5)]),
      (lit ''{"sentiment": "Positive", "reasoning": "x", "confidence": 5}'',
       JObj [(lit ''sentiment'', JStr (lit ''Positive'')), (lit ''reasoning'', JStr (lit ''x'')),
             (lit ''confidence'', JNum 5)]),
      (lit ''{"bull_case": [], "bear_case": []}'',
       JObj [(lit ''bull_case'', JArr []), (lit ''bear_case'', JArr [])]),
      (lit ''{"bull_case": ["a", "b", "c"], "bear_case": ["d"]}'',
       JObj [(lit ''bull_case'', JArr [JStr (lit ''a''), JStr (lit ''b''), JStr (lit ''c'')]),
             (lit ''bear_case'', JArr [JStr (lit ''d'')])])]\<close>

text \<open>A service that gives the same outcome to every request; a request takes one second
  and \<^verbatim>\<open>time.sleep\<close> is exact.\<close>

definition stub_env :: "outcome \<Rightarrow> env" where
  "stub_env reply =
     \<lparr>json_loads = stub_json_loads,
      str_title = ascii_title,
      generate_content = (\<lambda>n prompt. reply),
      latency = (\<lambda>n. 1),
      oversleep = 0,
      strftime = (\<lambda>t. lit ''2024-01-15 10:00:00'')\<rparr>"

text \<open>A service whose first request raises and which gives the same reply to every later
  request.\<close>

definition first_request_raises :: "pystr \<Rightarrow> env" where
  "first_request_raises reply =
     (stub_env (Text reply))
       \<lparr>generate_content := (\<lambda>n prompt. if n = 0 then Raises else Text reply)\<rparr>"

definition reply_fenced :: pystr where
  \<open>reply_fenced =
     lit ''```json\<newline>{"sentiment":"positive","reasoning":"x","confidence":0.9}\<newline>```''\<close>

definition reply_braces :: pystr where
  \<open>reply_braces = lit ''Some text {"sentiment":"Neutral","reasoning":"y"} trailing''\<close>

definition reply_no_json :: pystr where
  "reply_no_json = lit ''I cannot answer''"

definition reply_not_json :: pystr where
  "reply_not_json = lit ''{not json}''"

definition reply_numeric_reasoning :: pystr where
  \<open>reply_numeric_reasoning = lit ''{"sentiment": "Positive", "reasoning": 5}''\<close>

definition reply_confidence_five :: pystr where
  \<open>reply_confidence_five = lit ''{"sentiment": "Positive", "reasoning": "x", "confidence": 5}''\<close>

definition reply_empty_cases :: pystr where
  \<open>reply_empty_cases = lit ''{"bull_case": [], "bear_case": []}''\<close>

definition reply_three_one :: pystr where
  \<open>reply_three_one = lit ''{"bull_case": ["a", "b", "c"], "bear_case": ["d"]}''\<close>

definition sample_article :: "(pystr \<times> pystr) list" where
  "sample_article =
     [(lit ''title'', lit ''Apple Reports Record Quarterly Revenue Growth''),
      (lit ''description'', lit ''Apple Inc. reported strong quarterly earnings.''),
      (lit ''content'', lit ''Apple Inc. announced record quarterly revenue.''),
      (lit ''source'', lit ''Financial Times'')]"

definition sample_result :: "pystr \<Rightarrow> pystr \<Rightarrow> SentimentResult" where
  "sample_result label text =
     \<lparr>sentiment = label, reasoning = text, confidence = JNum (4 / 5),
      article_title = lit ''Apple Reports Record Quarterly Revenue Growth'',
      article_source = lit ''Financial Times''\<rparr>"

text \<open>Six Positive judgments followed by one Negative judgment.\<close>

definition six_positive_one_negative :: "SentimentResult list" where
  "six_positive_one_negative =
     replicate 6 (sample_result Positive (lit ''good'')) @
     [sample_result Negative (lit ''bad'')]"

text \<open>Twenty judgments: 35% Positive, 35% Negative, 30% Neutral.\<close>

definition split_35_35_30 :: "SentimentResult list" where
  "split_35_35_30 =
     replicate 7 (sample_result Positive (lit ''good'')) @
     replicate 7 (sample_result Negative (lit ''bad'')) @
     replicate 6 (sample_result Neutral (lit ''flat''))"

text \<open>Five judgments: 60% Positive, 40% Negative.\<close>

definition split_60_40 :: "SentimentResult list" where
  "split_60_40 =
     replicate 3 (sample_result Positive (lit ''good'')) @
     replicate 2 (sample_result Negative (lit ''bad''))"

section \<open>Properties of the tally and of the maximum\<close>

lemma counter_add_map_of:
  "map_of (counter_add m k) k' =
     (if k' = k then Some (case map_of m k of None \<Rightarrow> 1 | Some c \<Rightarrow> c + 1) else map_of m k')"
  by (induction m k rule: counter_add.induct) auto

lemma counter_add_keys:
  "map fst (counter_add m k) = (if k \<in> fst ` set m then map fst m else map fst m @ [k])"
  by (induction m k rule: counter_add.induct) auto

lemma counter_add_key_set: "fst ` set (counter_add m k) = insert k (fst ` set m)"
  using counter_add_keys [of m k] by (metis (no_types) insert_absorb list.set_map list.simps(15) rotate1.simps(2) set_rotate1)

lemma counter_add_sum:
  "sum_list (map snd (counter_add m k)) = Suc (sum_list (map snd m))"
  by (induction m k rule: counter_add.induct) auto

lemma foldl_counter_map_of:
  "map_of (foldl counter_add m xs) k =
     (if k \<in> set xs
      then Some ((case map_of m k of None \<Rightarrow> 0 | Some c \<Rightarrow> c) + count_list xs k)
      else map_of m k)"
  by (induction xs arbitrary: m) (auto simp: counter_add_map_of split: option.splits)

lemma foldl_counter_keys:
  "fst ` set (foldl counter_add m xs) = fst ` set m \<union> set xs"
  by (induction xs arbitrary: m) (simp_all add: counter_add_key_set)

lemma foldl_counter_distinct:
  "distinct (map fst m) \<Longrightarrow> distinct (map fst (foldl counter_add m xs))"
  by (induction xs arbitrary: m) (simp_all add: counter_add_keys)

lemma foldl_counter_sum:
  "sum_list (map snd (foldl counter_add m xs)) = sum_list (map snd m) + length xs"
  by (induction xs arbitrary: m) (simp_all add: counter_add_sum)

lemma Counter_map_of:
  "map_of (Counter xs) k = (if k \<in> set xs then Some (count_list xs k) else None)"
  by (simp add: Counter_def foldl_counter_map_of)

lemma Counter_keys: "fst ` set (Counter xs) = set xs"
  by (simp add: Counter_def foldl_counter_keys)

lemma Counter_distinct: "distinct (map fst (Counter xs))"
  by (simp add: Counter_def foldl_counter_distinct)

lemma Counter_sum: "sum_list (map snd (Counter xs)) = length xs"
  by (simp add: Counter_def foldl_counter_sum)

lemma Counter_entries:
  "(k, c) \<in> set (Counter xs) \<longleftrightarrow> k \<in> set xs \<and> c = count_list xs k"
proof -
  have "(k, c) \<in> set (Counter xs) \<longleftrightarrow> map_of (Counter xs) k = Some c"
    using Counter_distinct [of xs] by simp
  then show ?thesis
    by (auto simp: Counter_map_of)
qed

lemma Counter_nonempty: "xs \<noteq> [] \<Longrightarrow> Counter xs \<noteq> []"
  using Counter_keys [of xs] by auto

lemma foldl_max_best:
  fixes x :: "'a \<times> rat"
  shows "foldl (\<lambda>best y. if snd best < snd y then y else best) x xs \<in> set (x # xs) \<and>
   (\<forall>y \<in> set (x # xs). snd y \<le> snd (foldl (\<lambda>best y. if snd best < snd y then y else best) x xs))"
proof (induction xs arbitrary: x)
  case Nil
  show ?case by simp
next
  case (Cons a xs)
  show ?case
  proof (cases "snd x < snd a")
    case True
    with Cons [of a] show ?thesis by auto
  next
    case False
    with Cons [of x] show ?thesis by auto
  qed
qed

section \<open>Properties of the rate limiter\<close>

lemma rate_limit_fields:
  "requests (rate_limit ev s) = requests s"
  "min_request_interval (rate_limit ev s) = min_request_interval s"
  "last_request_time (rate_limit ev s) = clock (rate_limit ev s)"
  "clock (rate_limit ev s) =
     (if clock s - last_request_time s < min_request_interval s
      then last_request_time s + min_request_interval s + oversleep ev
      else clock s)"
  by (simp_all add: rate_limit_def time_sleep_def Let_def)

lemma requests_rate_limit: "requests (rate_limit ev s) = requests s"
  by (simp add: rate_limit_def time_sleep_def Let_def)

lemma send_request_fields:
  "last_request_time (snd (send_request ev p s)) = last_request_time s"
  "min_request_interval (snd (send_request ev p s)) = min_request_interval s"
  "requests (snd (send_request ev p s)) = Suc (requests s)"
  "clock (snd (send_request ev p s)) = clock s + latency ev (requests s)"
  by (simp_all add: send_request_def)

lemma rate_limit_stamp:
  "0 \<le> oversleep ev \<Longrightarrow>
   last_request_time s + min_request_interval s \<le> last_request_time (rate_limit ev s)"
  by (simp add: rate_limit_fields)

section \<open>Properties of the classifier\<close>

lemma check_sentiment_data_Some_iff:
  "check_sentiment_data ev d = Inr (Some p) \<longleftrightarrow>
     (\<exists>kvs sv rv. d = JObj kvs \<and>
        map_of kvs (lit ''sentiment'') = Some (JStr sv) \<and>
        map_of kvs (lit ''reasoning'') = Some (JStr rv) \<and>
        str_title ev (py_strip sv) \<in> {Positive, Negative, Neutral} \<and>
        p = \<lparr>parsed_sentiment = str_title ev (py_strip sv),
             parsed_reasoning = py_strip rv,
             parsed_confidence =
               (case map_of kvs (lit ''confidence'') of None \<Rightarrow> JNum (4 / 5) | Some v \<Rightarrow> v)\<rparr>)"
proof (cases d)
  case (JObj kvs)
  show ?thesis
  proof (cases "map_of kvs (lit ''sentiment'')")
    case None
    with JObj show ?thesis by (simp add: check_sentiment_data_def bind_exn_def)
  next
    case (Some sval)
    note s = this
    show ?thesis
    proof (cases "map_of kvs (lit ''reasoning'')")
      case None
      with JObj s show ?thesis by (simp add: check_sentiment_data_def bind_exn_def)
    next
      case (Some rval)
      with JObj s show ?thesis
        by (cases sval; cases rval)
           (auto simp: check_sentiment_data_def bind_exn_def Let_def)
    qed
  qed
qed (simp_all add: check_sentiment_data_def bind_exn_def)

lemma parse_sentiment_response_Some_iff:
  "parse_sentiment_response ev t = Some p \<longleftrightarrow>
     (\<exists>block d. extract_json_text (py_strip t) = Some block \<and> json_loads ev block = Some d \<and>
        check_sentiment_data ev d = Inr (Some p))"
  by (auto simp: parse_sentiment_response_def parse_sentiment_response_try_def
      split: option.splits sum.splits)

lemma analyze_article_sentiment_result:
  "snd (analyze_article_sentiment ev s article) =
     (case generate_content ev (requests s) (article_prompt article) of
        Raises \<Rightarrow> None
      | Text t \<Rightarrow>
          if t = [] then None
          else map_option (\<lambda>p. \<lparr>sentiment = parsed_sentiment p,
                                 reasoning = parsed_reasoning p,
                                 confidence = parsed_confidence p,
                                 article_title = dict_get article (lit ''title'') [],
                                 article_source = dict_get article (lit ''source'') (lit ''Unknown'')\<rparr>)
                 (parse_sentiment_response ev t))"
  by (simp add: analyze_article_sentiment_def analyze_article_sentiment_try_def
      send_request_def article_prompt_def requests_rate_limit Let_def
      split: outcome.splits option.splits)

lemma analyze_article_sentiment_Some_iff:
  "snd (analyze_article_sentiment ev s article) = Some r \<longleftrightarrow>
     (\<exists>t block kvs sv rv.
        generate_content ev (requests s) (article_prompt article) = Text t \<and> t \<noteq> [] \<and>
        extract_json_text (py_strip t) = Some block \<and>
        json_loads ev block = Some (JObj kvs) \<and>
        map_of kvs (lit ''sentiment'') = Some (JStr sv) \<and>
        map_of kvs (lit ''reasoning'') = Some (JStr rv) \<and>
        str_title ev (py_strip sv) \<in> {Positive, Negative, Neutral} \<and>
        r = \<lparr>sentiment = str_title ev (py_strip sv),
             reasoning = py_strip rv,
             confidence =
               (case map_of kvs (lit ''confidence'') of None \<Rightarrow> JNum (4 / 5) | Some v \<Rightarrow> v),
             article_title = dict_get article (lit ''title'') [],
             article_source = dict_get article (lit ''source'') (lit ''Unknown'')\<rparr>)"
proof (cases "generate_content ev (requests s) (article_prompt article)")
  case Raises
  then show ?thesis by (simp add: analyze_article_sentiment_result)
next
  case (Text t)
  show ?thesis
  proof (cases "t = []")
    case True
    with Text show ?thesis by (simp add: analyze_article_sentiment_result)
  next
    case False
    have "snd (analyze_article_sentiment ev s article) = Some r \<longleftrightarrow>
          (\<exists>p. parse_sentiment_response ev t = Some p \<and>
             r = \<lparr>sentiment = parsed_sentiment p, reasoning = parsed_reasoning p,
                  confidence = parsed_confidence p,
                  article_title = dict_get article (lit ''title'') [],
                  article_source = dict_get article (lit ''source'') (lit ''Unknown'')\<rparr>)"
      using Text False by (auto simp: analyze_article_sentiment_result)
    also have "\<dots> \<longleftrightarrow>
        (\<exists>block kvs sv rv.
        extract_json_text (py_strip t) = Some block \<and>
        json_loads ev block = Some (JObj kvs) \<and>
        map_of kvs (lit ''sentiment'') = Some (JStr sv) \<and>
        map_of kvs (lit ''reasoning'') = Some (JStr rv) \<and>
        str_title ev (py_strip sv) \<in> {Positive, Negative, Neutral} \<and>
        r = \<lparr>sentiment = str_title ev (py_strip sv),
             reasoning = py_strip rv,
             confidence =
               (case map_of kvs (lit ''confidence'') of None \<Rightarrow> JNum (4 / 5) | Some v \<Rightarrow> v),
             article_title = dict_get article (lit ''title'') [],
             article_source = dict_get article (lit ''source'') (lit ''Unknown'')\<rparr>)"
      unfolding parse_sentiment_response_Some_iff check_sentiment_data_Some_iff
      by fastforce
    finally show ?thesis using Text False by simp
  qed
qed

lemma analyze_article_sentiment_state:
  "fst (analyze_article_sentiment ev s article) =
     snd (send_request ev (article_prompt article) (rate_limit ev s))"
  by (simp add: analyze_article_sentiment_def analyze_article_sentiment_try_def
      send_request_def article_prompt_def Let_def split: outcome.splits option.splits)

lemma analyze_article_sentiment_requests:
  "requests (fst (analyze_article_sentiment ev s article)) = Suc (requests s)"
  by (simp add: analyze_article_sentiment_state send_request_fields rate_limit_fields)

lemma analyze_articles_requests:
  "requests (fst (analyze_articles ev s articles)) = requests s + length articles"
proof (induction articles arbitrary: s)
  case Nil
  show ?case by simp
next
  case (Cons article rest)
  obtain s1 result where a: "analyze_article_sentiment ev s article = (s1, result)"
    by (cases "analyze_article_sentiment ev s article") auto
  then have "requests s1 = Suc (requests s)"
    using analyze_article_sentiment_requests [of ev s article] by simp
  with Cons [of s1] a show ?case
    by (auto split: prod.splits)
qed

section \<open>Properties of the narrative\<close>

lemma labels_distinct:
  "Positive \<noteq> Negative" "Positive \<noteq> Neutral" "Negative \<noteq> Neutral"
  "Negative \<noteq> Positive" "Neutral \<noteq> Positive" "Neutral \<noteq> Negative"
  by (simp_all add: Positive_def Negative_def Neutral_def lit_def)

lemma default_loop_eq:
  "default_loop js bull bear =
     (bull @ map default_point (filter (\<lambda>r. sentiment r = Positive) js),
      bear @ map default_point (filter (\<lambda>r. sentiment r = Negative) js))"
  by (induction js arbitrary: bull bear) (simp_all add: labels_distinct)

lemma create_default_bull_bear_cases_eq:
  "create_default_bull_bear_cases js =
     (take 5 (if filter (\<lambda>r. sentiment r = Positive) js = []
              then [[8226, 32] @ lit ''Positive market sentiment detected in recent news'']
              else map default_point (filter (\<lambda>r. sentiment r = Positive) js)),
      take 5 (if filter (\<lambda>r. sentiment r = Negative) js = []
              then [[8226, 32] @ lit ''Some concerns identified in recent coverage'']
              else map default_point (filter (\<lambda>r. sentiment r = Negative) js)))"
  by (simp add: create_default_bull_bear_cases_def default_loop_eq)

lemma create_default_bull_bear_cases_length:
  "1 \<le> length (fst (create_default_bull_bear_cases js)) \<and>
   length (fst (create_default_bull_bear_cases js)) \<le> 5 \<and>
   1 \<le> length (snd (create_default_bull_bear_cases js)) \<and>
   length (snd (create_default_bull_bear_cases js)) \<le> 5"
  by (simp add: create_default_bull_bear_cases_eq Suc_le_eq)

lemma default_cases_eq:
  "default_cases js =
     (str_list (take 5 (if filter (\<lambda>r. sentiment r = Positive) js = []
              then [[8226, 32] @ lit ''Positive market sentiment detected in recent news'']
              else map default_point (filter (\<lambda>r. sentiment r = Positive) js))),
      str_list (take 5 (if filter (\<lambda>r. sentiment r = Negative) js = []
              then [[8226, 32] @ lit ''Some concerns identified in recent coverage'']
              else map default_point (filter (\<lambda>r. sentiment r = Negative) js))))"
  by (simp add: default_cases_def create_default_bull_bear_cases_eq)

lemma default_cases_ok:
  "case_list_ok (fst (default_cases js)) \<and> case_list_ok (snd (default_cases js))"
  by (simp add: default_cases_eq case_list_ok_def str_list_def Suc_le_eq)

lemma generate_bull_bear_cases_result:
  "snd (generate_bull_bear_cases ev s js name) =
     (case generate_content ev (requests s) (narrative_prompt name js) of
        Raises \<Rightarrow> default_cases js
      | Text t \<Rightarrow>
          if t = [] then default_cases js
          else (case parse_bull_bear_response ev t of
                  None \<Rightarrow> default_cases js
                | Some d \<Rightarrow>
                    if py_truthy d then
                      (case py_getitem d (lit ''bull_case'') of
                         Inl e \<Rightarrow> default_cases js
                       | Inr bull \<Rightarrow>
                           (case py_getitem d (lit ''bear_case'') of
                              Inl e \<Rightarrow> default_cases js
                            | Inr bear \<Rightarrow> (bull, bear)))
                    else default_cases js))"
  by (simp add: generate_bull_bear_cases_def generate_bull_bear_cases_try_def
      send_request_def narrative_prompt_def Let_def bind_exn_def rate_limit_fields
      split: outcome.splits option.splits sum.splits)

lemma generate_bull_bear_cases_state:
  "fst (generate_bull_bear_cases ev s js name) =
     snd (send_request ev (narrative_prompt name js) (rate_limit ev s))"
  by (simp add: generate_bull_bear_cases_def generate_bull_bear_cases_try_def
      send_request_def narrative_prompt_def Let_def bind_exn_def
      split: outcome.splits option.splits sum.splits)

section \<open>Properties of the report\<close>

lemma percentages_of_Inr:
  "n \<noteq> 0 \<Longrightarrow>
   percentages_of cs n = Inr (map (\<lambda>(label, c). (label, (of_nat c / of_nat n) * 100)) cs)"
  by (simp add: percentages_of_def)

lemma determine_overall_sentiment_spec:
  assumes "pcts \<noteq> []"
  shows "\<exists>m. m \<in> set pcts \<and> (\<forall>y \<in> set pcts. snd y \<le> snd m) \<and>
           determine_overall_sentiment pcts = Inr (if snd m < 40 then Neutral else fst m)"
proof -
  from assms obtain x xs where pcts: "pcts = x # xs"
    by (cases pcts) auto
  define m where "m = foldl (\<lambda>best y. if snd best < snd y then y else best) x xs"
  have "m \<in> set pcts" and "\<forall>y \<in> set pcts. snd y \<le> snd m"
    using foldl_max_best [of x xs] by (simp_all add: m_def pcts)
  moreover have "determine_overall_sentiment pcts = Inr (if snd m < 40 then Neutral else fst m)"
    by (simp add: determine_overall_sentiment_def bind_exn_def pcts m_def)
  ultimately show ?thesis by blast
qed

lemma results_of_Judgments: "results_of (map Judgment js) = Inr js"
  by (induction js) (simp_all add: bind_exn_def)

lemma results_of_NotAJudgment:
  "NotAJudgment \<in> set objs \<Longrightarrow> results_of objs = Inl AttributeError"
proof (induction objs)
  case Nil
  then show ?case by simp
next
  case (Cons obj rest)
  then show ?case
    by (cases obj) (auto simp: bind_exn_def)
qed

lemma generate_final_report_nonempty:
  assumes "js \<noteq> []"
  shows "\<exists>overall.
     determine_overall_sentiment
       (map (\<lambda>(label, c). (label, (of_nat c / of_nat (length js)) * 100))
          (Counter (map sentiment js))) = Inr overall \<and>
     generate_final_report ev s js name =
       (fst (generate_bull_bear_cases ev s js name),
        \<lparr>overall_sentiment = overall,
         sentiment_breakdown = Counter (map sentiment js),
         sentiment_percentages =
           map (\<lambda>(label, c). (label, (of_nat c / of_nat (length js)) * 100))
             (Counter (map sentiment js)),
         bull_case = fst (snd (generate_bull_bear_cases ev s js name)),
         bear_case = snd (snd (generate_bull_bear_cases ev s js name)),
         total_articles = length js,
         analyzed_articles = length js,
         analysis_timestamp = strftime ev (clock (fst (generate_bull_bear_cases ev s js name)))\<rparr>)"
proof -
  let ?pcts = "map (\<lambda>(label, c). (label, (of_nat c / of_nat (length js)) * 100))
          (Counter (map sentiment js)) :: (pystr \<times> rat) list"
  from assms have "?pcts \<noteq> []"
    by (simp add: Counter_nonempty)
  then obtain overall where ov: "determine_overall_sentiment ?pcts = Inr overall"
    using determine_overall_sentiment_spec [of ?pcts] by blast
  from assms have len: "length js \<noteq> 0" by simp
  obtain s' bull bear where g: "generate_bull_bear_cases ev s js name = (s', bull, bear)"
    by (cases "generate_bull_bear_cases ev s js name") auto
  have "generate_final_report_any_try ev s (map Judgment js) name =
          (s', Inr \<lparr>overall_sentiment = overall,
                    sentiment_breakdown = Counter (map sentiment js),
                    sentiment_percentages = ?pcts,
                    bull_case = bull, bear_case = bear,
                    total_articles = length js, analyzed_articles = length js,
                    analysis_timestamp = strftime ev (clock s')\<rparr>)"
    unfolding generate_final_report_any_try_def Let_def
    using assms ov g by (simp add: results_of_Judgments percentages_of_Inr [OF len])
  then show ?thesis
    using ov g by (simp add: generate_final_report_def generate_final_report_any_def)
qed

lemma generate_final_report_empty:
  "generate_final_report ev s [] name = (s, create_empty_report ev s name)"
  by (simp add: generate_final_report_def generate_final_report_any_def
      generate_final_report_any_try_def)

lemma generate_final_report_cases:
  "js \<noteq> [] \<Longrightarrow>
   bull_case (snd (generate_final_report ev s js name)) =
     fst (snd (generate_bull_bear_cases ev s js name)) \<and>
   bear_case (snd (generate_final_report ev s js name)) =
     snd (snd (generate_bull_bear_cases ev s js name))"
  using generate_final_report_nonempty [of js ev s name] by auto

lemma generate_final_report_try_Inr:
  "\<exists>report. snd (generate_final_report_any_try ev s (map Judgment js) name) = Inr report \<and>
            snd (generate_final_report ev s js name) = report"
proof (cases "js = []")
  case True
  then show ?thesis
    by (simp add: generate_final_report_def generate_final_report_any_def
        generate_final_report_any_try_def)
next
  case False
  let ?pcts = "map (\<lambda>(label, c). (label, (of_nat c / of_nat (length js)) * 100))
          (Counter (map sentiment js)) :: (pystr \<times> rat) list"
  from False have "?pcts \<noteq> []"
    by (simp add: Counter_nonempty)
  then obtain overall where ov: "determine_overall_sentiment ?pcts = Inr overall"
    using determine_overall_sentiment_spec [of ?pcts] by blast
  from False have len: "length js \<noteq> 0" by simp
  obtain s' bull bear where g: "generate_bull_bear_cases ev s js name = (s', bull, bear)"
    by (cases "generate_bull_bear_cases ev s js name") auto
  have "\<exists>report. generate_final_report_any_try ev s (map Judgment js) name = (s', Inr report)"
    unfolding generate_final_report_any_try_def Let_def
    using False ov g by (simp add: results_of_Judgments percentages_of_Inr [OF len])
  then show ?thesis
    by (auto simp: generate_final_report_def generate_final_report_any_def)
qed

lemma generate_final_report_any_raises:
  assumes "NotAJudgment \<in> set objs"
  shows "generate_final_report_any_try ev s objs name = (s, Inl AttributeError)"
proof -
  from assms have "objs \<noteq> []" by auto
  with results_of_NotAJudgment [OF assms] show ?thesis
    by (simp add: generate_final_report_any_try_def)
qed

section \<open>Properties of the percentages\<close>

lemma count_list_two:
  "a \<noteq> b \<Longrightarrow> count_list xs a + count_list xs b \<le> length xs"
  by (induction xs) auto

lemma count_list_four:
  "distinct [a, b, c, d] \<Longrightarrow>
   count_list xs a + count_list xs b + count_list xs c + count_list xs d \<le> length xs"
  by (induction xs) auto

lemma label_percentage_sum2:
  assumes "js \<noteq> []" "a \<noteq> b"
  shows "label_percentage js a + label_percentage js b \<le> 100"
proof -
  have n: "(0::rat) < of_nat (length js)" using assms(1) by simp
  have "count_list (map sentiment js) a + count_list (map sentiment js) b \<le> length js"
    using count_list_two [OF assms(2), of "map sentiment js"] by simp
  then have "(of_nat (count_list (map sentiment js) a) +
              of_nat (count_list (map sentiment js) b) :: rat) \<le> of_nat (length js)"
    by (metis of_nat_add of_nat_le_iff)
  then have "100 * (of_nat (count_list (map sentiment js) a) +
              of_nat (count_list (map sentiment js) b)) / of_nat (length js) \<le> (100::rat)"
    using n by (simp add: divide_le_eq)
  then show ?thesis
    by (simp add: label_percentage_def distrib_left add_divide_distrib)
qed

lemma label_percentage_sum4:
  assumes "js \<noteq> []" "distinct [a, b, c, d]"
  shows "label_percentage js a + label_percentage js b + label_percentage js c +
           label_percentage js d \<le> 100"
proof -
  have n: "(0::rat) < of_nat (length js)" using assms(1) by simp
  have "count_list (map sentiment js) a + count_list (map sentiment js) b +
        count_list (map sentiment js) c + count_list (map sentiment js) d \<le> length js"
    using count_list_four [OF assms(2), of "map sentiment js"] by simp
  then have "(of_nat (count_list (map sentiment js) a) +
              of_nat (count_list (map sentiment js) b) +
              of_nat (count_list (map sentiment js) c) +
              of_nat (count_list (map sentiment js) d) :: rat) \<le> of_nat (length js)"
    by (metis of_nat_add of_nat_le_iff)
  then have "100 * (of_nat (count_list (map sentiment js) a) +
              of_nat (count_list (map sentiment js) b) +
              of_nat (count_list (map sentiment js) c) +
              of_nat (count_list (map sentiment js) d)) / of_nat (length js) \<le> (100::rat)"
    using n by (simp add: divide_le_eq)
  then show ?thesis
    by (simp add: label_percentage_def distrib_left add_divide_distrib)
qed

lemma label_percentage_pos:
  assumes "label \<in> set (map sentiment js)"
  shows "0 < label_percentage js label"
proof -
  from assms have "js \<noteq> []" by auto
  moreover have "0 < count_list (map sentiment js) label"
    using assms count_list_0_iff [of "map sentiment js" label] by (cases "count_list (map sentiment js) label") auto
  ultimately show ?thesis
    by (simp add: label_percentage_def)
qed

lemma label_percentage_zero:
  "label \<notin> set (map sentiment js) \<Longrightarrow> label_percentage js label = 0"
  by (simp add: label_percentage_def count_list_0_iff)

lemma overall_sentiment_max:
  assumes "js \<noteq> []"
  shows "\<exists>label \<in> set (map sentiment js).
           (\<forall>l \<in> set (map sentiment js). label_percentage js l \<le> label_percentage js label) \<and>
           overall_sentiment (snd (generate_final_report ev s js name)) =
             (if label_percentage js label < 40 then Neutral else label)"
proof -
  let ?pcts = "map (\<lambda>(label, c). (label, (of_nat c / of_nat (length js)) * 100))
          (Counter (map sentiment js)) :: (pystr \<times> rat) list"
  from generate_final_report_nonempty [OF assms, of ev s name] obtain overall where
    ov: "determine_overall_sentiment ?pcts = Inr overall"
    and r: "overall_sentiment (snd (generate_final_report ev s js name)) = overall"
    by auto
  from assms have ne: "?pcts \<noteq> []" by (simp add: Counter_nonempty)
  from determine_overall_sentiment_spec [OF ne] obtain m where
    m: "m \<in> set ?pcts" and mx: "\<forall>y \<in> set ?pcts. snd y \<le> snd m"
    and d: "determine_overall_sentiment ?pcts = Inr (if snd m < 40 then Neutral else fst m)"
    by blast
  from d ov have o: "overall = (if snd m < 40 then Neutral else fst m)"
    by simp
  have entries: "\<And>l p. (l, p) \<in> set ?pcts \<longleftrightarrow>
      l \<in> set (map sentiment js) \<and> p = label_percentage js l"
  proof -
    fix l p
    have "(l, p) \<in> set ?pcts \<longleftrightarrow>
          (\<exists>c. (l, c) \<in> set (Counter (map sentiment js)) \<and>
               p = (of_nat c / of_nat (length js)) * 100)"
      by (auto simp: image_iff) force
    also have "\<dots> \<longleftrightarrow> l \<in> set (map sentiment js) \<and> p = label_percentage js l"
      unfolding Counter_entries by (auto simp: label_percentage_def)
    finally show "(l, p) \<in> set ?pcts \<longleftrightarrow>
      l \<in> set (map sentiment js) \<and> p = label_percentage js l" .
  qed
  obtain label p where lp: "m = (label, p)" by (cases m)
  with m entries have l: "label \<in> set (map sentiment js)" and p: "p = label_percentage js label"
    by auto
  have "\<forall>l \<in> set (map sentiment js). label_percentage js l \<le> label_percentage js label"
  proof
    fix l assume "l \<in> set (map sentiment js)"
    then have "(l, label_percentage js l) \<in> set ?pcts" using entries by blast
    with mx have "label_percentage js l \<le> snd m" by force
    then show "label_percentage js l \<le> label_percentage js label" by (simp add: lp p)
  qed
  with l r o lp p show ?thesis by auto
qed

lemma count_list_replicate:
  "count_list (replicate n x) y = (if x = y then n else 0)"
  by (induction n) auto

lemma sum_percentages:
  "sum_list (map snd (map (\<lambda>(label, c). (label, (of_nat c / n) * (100::rat))) cs)) =
     (of_nat (sum_list (map snd cs)) / n) * 100"
  by (induction cs) (auto simp: add_divide_distrib distrib_right)

lemma map_of_percentages:
  "map_of (map (\<lambda>(label, c). (label, g c)) cs) k = map_option g (map_of cs k)"
  by (induction cs) auto

section \<open>Properties of the exception handlers\<close>

lemma all_Judgments:
  "NotAJudgment \<notin> set objs \<Longrightarrow> \<exists>js. objs = map Judgment js"
proof (induction objs)
  case Nil
  then show ?case by simp
next
  case (Cons obj rest)
  then obtain js where "rest = map Judgment js" by auto
  moreover from Cons.prems obtain result where "obj = Judgment result"
    by (cases obj) auto
  ultimately have "obj # rest = map Judgment (result # js)" by simp
  then show ?case by (rule exI)
qed

lemma generate_final_report_any_raises_iff:
  "(\<exists>e. snd (generate_final_report_any_try ev s objs name) = Inl e) \<longleftrightarrow>
     NotAJudgment \<in> set objs"
proof
  assume r: "\<exists>e. snd (generate_final_report_any_try ev s objs name) = Inl e"
  show "NotAJudgment \<in> set objs"
  proof (rule ccontr)
    assume "NotAJudgment \<notin> set objs"
    then obtain js where "objs = map Judgment js"
      using all_Judgments by blast
    with generate_final_report_try_Inr [of ev s js name] r show False
      by auto
  qed
next
  assume "NotAJudgment \<in> set objs"
  then show "\<exists>e. snd (generate_final_report_any_try ev s objs name) = Inl e"
    by (simp add: generate_final_report_any_raises)
qed

lemma py_getitem_truthy: "py_getitem d k = Inr v \<Longrightarrow> py_truthy d"
  by (cases d) (auto split: option.splits)

lemma analyze_article_sentiment_try_raises:
  "generate_content ev (requests s) (article_prompt article) = Raises \<Longrightarrow>
   snd (analyze_article_sentiment_try ev s article) = Inl ServiceError"
  by (simp add: analyze_article_sentiment_try_def send_request_def article_prompt_def
      requests_rate_limit Let_def)

lemma parse_sentiment_response_try_decode:
  "extract_json_text (py_strip t) = Some block \<Longrightarrow> json_loads ev block = None \<Longrightarrow>
   parse_sentiment_response_try ev t = Inl JSONDecodeError"
  by (simp add: parse_sentiment_response_try_def)

lemma parse_sentiment_response_try_check:
  "extract_json_text (py_strip t) = Some block \<Longrightarrow> json_loads ev block = Some d \<Longrightarrow>
   parse_sentiment_response_try ev t = check_sentiment_data ev d"
  by (simp add: parse_sentiment_response_try_def)

lemma analyze_article_sentiment_parse_raises:
  "generate_content ev (requests s) (article_prompt article) = Text t \<Longrightarrow>
   parse_sentiment_response_try ev t = Inl e \<Longrightarrow>
   snd (analyze_article_sentiment ev s article) = None"
  by (simp add: analyze_article_sentiment_result parse_sentiment_response_def)

lemma analyze_articles_append:
  "analyze_articles ev s (xs @ ys) =
     (fst (analyze_articles ev (fst (analyze_articles ev s xs)) ys),
      snd (analyze_articles ev s xs) @
      snd (analyze_articles ev (fst (analyze_articles ev s xs)) ys))"
proof (induction xs arbitrary: s)
  case Nil
  show ?case by simp
next
  case (Cons article rest)
  obtain s1 result where a: "analyze_article_sentiment ev s article = (s1, result)"
    by (cases "analyze_article_sentiment ev s article") auto
  from Cons [of s1] a show ?case
    by (cases result) (simp_all split: prod.splits)
qed

lemma analyze_articles_skip:
  assumes "analyze_articles ev s xs = (s1, rs)"
    and "analyze_article_sentiment ev s1 article = (s2, None)"
  shows "analyze_articles ev s (xs @ article # ys) =
           (fst (analyze_articles ev s2 ys), rs @ snd (analyze_articles ev s2 ys))"
proof -
  from assms(2) have "analyze_articles ev s1 (article # ys) =
      (fst (analyze_articles ev s2 ys), snd (analyze_articles ev s2 ys))"
    by (simp split: prod.splits)
  with assms(1) show ?thesis
    by (simp add: analyze_articles_append [of ev s xs "article # ys"])
qed

lemma generate_bull_bear_cases_handler:
  "snd (generate_bull_bear_cases_try ev s js name) = Inl e \<Longrightarrow>
   snd (generate_bull_bear_cases ev s js name) = default_cases js"
  by (auto simp: generate_bull_bear_cases_def split: prod.splits)

lemma generate_bull_bear_cases_try_raises:
  "generate_content ev (requests s) (narrative_prompt name js) = Raises \<Longrightarrow>
   snd (generate_bull_bear_cases_try ev s js name) = Inl ServiceError"
  by (simp add: generate_bull_bear_cases_try_def send_request_def narrative_prompt_def
      rate_limit_fields Let_def)

lemma generate_bull_bear_cases_try_getitem:
  assumes "generate_content ev (requests s) (narrative_prompt name js) = Text t" and "t \<noteq> []"
    and "parse_bull_bear_response ev t = Some d" and "py_truthy d"
  shows "snd (generate_bull_bear_cases_try ev s js name) =
           bind_exn (py_getitem d (lit ''bull_case'')) (\<lambda>bull.
           bind_exn (py_getitem d (lit ''bear_case'')) (\<lambda>bear. Inr (bull, bear)))"
  using assms
  by (simp add: generate_bull_bear_cases_try_def send_request_def narrative_prompt_def
      rate_limit_fields Let_def)

lemma generate_final_report_any_handler:
  assumes "snd (generate_final_report_any_try ev s objs name) = Inl e"
  shows "generate_final_report_any ev s objs name = (s, create_empty_report ev s name)"
proof -
  from assms have "generate_final_report_any_try ev s objs name = (s, Inl e)"
    by (auto simp: generate_final_report_any_try_def Let_def
        split: if_splits sum.splits prod.splits)
  then show ?thesis
    by (simp add: generate_final_report_any_def)
qed

section \<open>Evaluation in the stub environment\<close>

lemma strip_reply_fenced: "py_strip reply_fenced = reply_fenced"
  by (simp add: py_strip_def reply_fenced_def lit_def py_isspace_def)

lemma extract_reply_fenced:
  \<open>extract_json_text reply_fenced = Some (lit ''{"sentiment":"positive","reasoning":"x","confidence":0.9}'')\<close>
proof -
  have 1: \<open>py_in (lit ''```json'') reply_fenced\<close>
    by (simp add: reply_fenced_def lit_def)
  have 2: \<open>py_find reply_fenced (lit ''```json'') 0 = 0\<close>
    by (simp add: reply_fenced_def lit_def py_find_def)
  have 3: \<open>py_find reply_fenced (lit ''```'') 7 = 66\<close>
    by (simp add: reply_fenced_def lit_def py_find_def)
  have 4: \<open>py_slice reply_fenced 7 66 = lit ''\<newline>{"sentiment":"positive","reasoning":"x","confidence":0.9}\<newline>''\<close>
    by (simp add: reply_fenced_def lit_def py_slice_def slice_bound_def)
  have 5: \<open>py_strip (lit ''\<newline>{"sentiment":"positive","reasoning":"x","confidence":0.9}\<newline>'') = lit ''{"sentiment":"positive","reasoning":"x","confidence":0.9}''\<close>
    by (simp add: py_strip_def lit_def py_isspace_def)
  show ?thesis
    by (simp add: extract_json_text_def 1 2 3 4 5)
qed

lemma strip_reply_braces: "py_strip reply_braces = reply_braces"
  by (simp add: py_strip_def reply_braces_def lit_def py_isspace_def)

lemma extract_reply_braces:
  \<open>extract_json_text reply_braces = Some (lit ''{"sentiment":"Neutral","reasoning":"y"}'')\<close>
proof -
  have 1: \<open>\<not> py_in (lit ''```json'') reply_braces\<close>
    by (simp add: reply_braces_def lit_def)
  have 2: \<open>py_in (lit ''{'') reply_braces\<close> \<open>py_in (lit ''}'') reply_braces\<close>
    by (simp_all add: reply_braces_def lit_def)
  have 3: \<open>py_find reply_braces (lit ''{'') 0 = 10\<close>
    by (simp add: reply_braces_def lit_def py_find_def)
  have 4: \<open>py_rfind reply_braces (lit ''}'') = 48\<close>
    by (simp add: reply_braces_def lit_def py_rfind_def)
  have 5: \<open>py_slice reply_braces 10 49 = lit ''{"sentiment":"Neutral","reasoning":"y"}''\<close>
    by (simp add: reply_braces_def lit_def py_slice_def slice_bound_def)
  show ?thesis
    by (simp add: extract_json_text_def 1 2 3 4 5)
qed

lemma strip_reply_no_json: "py_strip reply_no_json = reply_no_json"
  by (simp add: py_strip_def reply_no_json_def lit_def py_isspace_def)

lemma extract_reply_no_json: "extract_json_text reply_no_json = None"
proof -
  have 1: \<open>\<not> py_in (lit ''```json'') reply_no_json\<close>
    by (simp add: reply_no_json_def lit_def)
  have 2: \<open>\<not> py_in (lit ''{'') reply_no_json\<close>
    by (simp add: reply_no_json_def lit_def)
  show ?thesis
    by (simp add: extract_json_text_def 1 2)
qed

lemma strip_reply_not_json: "py_strip reply_not_json = reply_not_json"
  by (simp add: py_strip_def reply_not_json_def lit_def py_isspace_def)

lemma extract_reply_not_json:
  \<open>extract_json_text reply_not_json = Some reply_not_json\<close>
proof -
  have 1: \<open>\<not> py_in (lit ''```json'') reply_not_json\<close>
    by (simp add: reply_not_json_def lit_def)
  have 2: \<open>py_in (lit ''{'') reply_not_json\<close> \<open>py_in (lit ''}'') reply_not_json\<close>
    by (simp_all add: reply_not_json_def lit_def)
  have 3: \<open>py_find reply_not_json (lit ''{'') 0 = 0\<close>
    by (simp add: reply_not_json_def lit_def py_find_def)
  have 4: \<open>py_rfind reply_not_json (lit ''}'') = 9\<close>
    by (simp add: reply_not_json_def lit_def py_rfind_def)
  have 5: \<open>py_slice reply_not_json 0 10 = reply_not_json\<close>
    by (simp add: reply_not_json_def lit_def py_slice_def slice_bound_def)
  show ?thesis
    by (simp add: extract_json_text_def 1 2 3 4 5)
qed

lemma strip_reply_numeric_reasoning: "py_strip reply_numeric_reasoning = reply_numeric_reasoning"
  by (simp add: py_strip_def reply_numeric_reasoning_def lit_def py_isspace_def)

lemma extract_reply_numeric_reasoning:
  \<open>extract_json_text reply_numeric_reasoning = Some reply_numeric_reasoning\<close>
proof -
  have 1: \<open>\<not> py_in (lit ''```json'') reply_numeric_reasoning\<close>
    by (simp add: reply_numeric_reasoning_def lit_def)
  have 2: \<open>py_in (lit ''{'') reply_numeric_reasoning\<close> \<open>py_in (lit ''}'') reply_numeric_reasoning\<close>
    by (simp_all add: reply_numeric_reasoning_def lit_def)
  have 3: \<open>py_find reply_numeric_reasoning (lit ''{'') 0 = 0\<close>
    by (simp add: reply_numeric_reasoning_def lit_def py_find_def)
  have 4: \<open>py_rfind reply_numeric_reasoning (lit ''}'') = 40\<close>
    by (simp add: reply_numeric_reasoning_def lit_def py_rfind_def)
  have 5: \<open>py_slice reply_numeric_reasoning 0 41 = reply_numeric_reasoning\<close>
    by (simp add: reply_numeric_reasoning_def lit_def py_slice_def slice_bound_def)
  show ?thesis
    by (simp add: extract_json_text_def 1 2 3 4 5)
qed

lemma strip_reply_confidence_five: "py_strip reply_confidence_five = reply_confidence_five"
  by (simp add: py_strip_def reply_confidence_five_def lit_def py_isspace_def)

lemma extract_reply_confidence_five:
  \<open>extract_json_text reply_confidence_five = Some reply_confidence_five\<close>
proof -
  have 1: \<open>\<not> py_in (lit ''```json'') reply_confidence_five\<close>
    by (simp add: reply_confidence_five_def lit_def)
  have 2: \<open>py_in (lit ''{'') reply_confidence_five\<close> \<open>py_in (lit ''}'') reply_confidence_five\<close>
    by (simp_all add: reply_confidence_five_def lit_def)
  have 3: \<open>py_find reply_confidence_five (lit ''{'') 0 = 0\<close>
    by (simp add: reply_confidence_five_def lit_def py_find_def)
  have 4: \<open>py_rfind reply_confidence_five (lit ''}'') = 59\<close>
    by (simp add: reply_confidence_five_def lit_def py_rfind_def)
  have 5: \<open>py_slice reply_confidence_five 0 60 = reply_confidence_five\<close>
    by (simp add: reply_confidence_five_def lit_def py_slice_def slice_bound_def)
  show ?thesis
    by (simp add: extract_json_text_def 1 2 3 4 5)
qed

lemma strip_reply_empty_cases: "py_strip reply_empty_cases = reply_empty_cases"
  by (simp add: py_strip_def reply_empty_cases_def lit_def py_isspace_def)

lemma extract_reply_empty_cases:
  \<open>extract_json_text reply_empty_cases = Some reply_empty_cases\<close>
proof -
  have 1: \<open>\<not> py_in (lit ''```json'') reply_empty_cases\<close>
    by (simp add: reply_empty_cases_def lit_def)
  have 2: \<open>py_in (lit ''{'') reply_empty_cases\<close> \<open>py_in (lit ''}'') reply_empty_cases\<close>
    by (simp_all add: reply_empty_cases_def lit_def)
  have 3: \<open>py_find reply_empty_cases (lit ''{'') 0 = 0\<close>
    by (simp add: reply_empty_cases_def lit_def py_find_def)
  have 4: \<open>py_rfind reply_empty_cases (lit ''}'') = 33\<close>
    by (simp add: reply_empty_cases_def lit_def py_rfind_def)
  have 5: \<open>py_slice reply_empty_cases 0 34 = reply_empty_cases\<close>
    by (simp add: reply_empty_cases_def lit_def py_slice_def slice_bound_def)
  show ?thesis
    by (simp add: extract_json_text_def 1 2 3 4 5)
qed

lemma loads_fenced:
  \<open>stub_json_loads (lit ''{"sentiment":"positive","reasoning":"x","confidence":0.9}'') =
     Some (JObj [(lit ''sentiment'', JStr (lit ''positive'')), (lit ''reasoning'', JStr (lit ''x'')),
                 (lit ''confidence'', JNum (9 / 10))])\<close>
  by (simp add: stub_json_loads_def lit_def)

lemma loads_braces:
  \<open>stub_json_loads (lit ''{"sentiment":"Neutral","reasoning":"y"}'') =
     Some (JObj [(lit ''sentiment'', JStr (lit ''Neutral'')), (lit ''reasoning'', JStr (lit ''y''))])\<close>
  by (simp add: stub_json_loads_def lit_def)

lemma loads_not_json: "stub_json_loads reply_not_json = None"
  by (simp add: stub_json_loads_def reply_not_json_def lit_def)

lemma loads_numeric_reasoning:
  "stub_json_loads reply_numeric_reasoning =
     Some (JObj [(lit ''sentiment'', JStr (lit ''Positive'')), (lit ''reasoning'', JNum 5)])"
  by (simp add: stub_json_loads_def reply_numeric_reasoning_def lit_def)

lemma loads_confidence_five:
  "stub_json_loads reply_confidence_five =
     Some (JObj [(lit ''sentiment'', JStr (lit ''Positive'')), (lit ''reasoning'', JStr (lit ''x'')),
                 (lit ''confidence'', JNum 5)])"
  by (simp add: stub_json_loads_def reply_confidence_five_def lit_def)

lemma loads_empty_cases:
  "stub_json_loads reply_empty_cases =
     Some (JObj [(lit ''bull_case'', JArr []), (lit ''bear_case'', JArr [])])"
  by (simp add: stub_json_loads_def reply_empty_cases_def lit_def)

lemma stub_env_fields:
  "json_loads (stub_env out) = stub_json_loads"
  "str_title (stub_env out) = ascii_title"
  "generate_content (stub_env out) n prompt = out"
  "latency (stub_env out) n = 1"
  "oversleep (stub_env out) = 0"
  by (simp_all add: stub_env_def)

lemma title_positive: "ascii_title (py_strip (lit ''positive'')) = Positive"
  by (simp add: ascii_title_def py_strip_def py_isspace_def lit_def Positive_def
      is_ascii_letter_def ascii_upper_def ascii_lower_def)

lemma title_Positive: "ascii_title (py_strip (lit ''Positive'')) = Positive"
  by (simp add: ascii_title_def py_strip_def py_isspace_def lit_def Positive_def
      is_ascii_letter_def ascii_upper_def ascii_lower_def)

lemma title_Neutral: "ascii_title (py_strip (lit ''Neutral'')) = Neutral"
  by (simp add: ascii_title_def py_strip_def py_isspace_def lit_def Neutral_def
      is_ascii_letter_def ascii_upper_def ascii_lower_def)

lemma strip_x: "py_strip (lit ''x'') = lit ''x''" "py_strip (lit ''y'') = lit ''y''"
  by (simp_all add: py_strip_def py_isspace_def lit_def)

lemma keys_distinct:
  "lit ''sentiment'' \<noteq> lit ''reasoning''" "lit ''sentiment'' \<noteq> lit ''confidence''"
  "lit ''reasoning'' \<noteq> lit ''confidence''" "lit ''bull_case'' \<noteq> lit ''bear_case''"
  by (simp_all add: lit_def)

lemma parse_reply_fenced:
  "parse_sentiment_response (stub_env out) reply_fenced =
     Some \<lparr>parsed_sentiment = Positive, parsed_reasoning = lit ''x'',
           parsed_confidence = JNum (9 / 10)\<rparr>"
  unfolding parse_sentiment_response_Some_iff check_sentiment_data_Some_iff
  using keys_distinct
  by (simp add: strip_reply_fenced extract_reply_fenced stub_env_fields loads_fenced
      title_positive strip_x)

lemma parse_reply_braces:
  "parse_sentiment_response (stub_env out) reply_braces =
     Some \<lparr>parsed_sentiment = Neutral, parsed_reasoning = lit ''y'',
           parsed_confidence = JNum (4 / 5)\<rparr>"
  unfolding parse_sentiment_response_Some_iff check_sentiment_data_Some_iff
  using keys_distinct
  by (simp add: strip_reply_braces extract_reply_braces stub_env_fields loads_braces
      title_Neutral strip_x)

lemma parse_reply_confidence_five:
  "parse_sentiment_response (stub_env out) reply_confidence_five =
     Some \<lparr>parsed_sentiment = Positive, parsed_reasoning = lit ''x'',
           parsed_confidence = JNum 5\<rparr>"
  unfolding parse_sentiment_response_Some_iff check_sentiment_data_Some_iff
  using keys_distinct
  by (simp add: strip_reply_confidence_five extract_reply_confidence_five stub_env_fields
      loads_confidence_five title_Positive strip_x)

lemma parse_try_reply_numeric_reasoning:
  "parse_sentiment_response_try (stub_env out) reply_numeric_reasoning = Inl AttributeError"
  using keys_distinct
  by (simp add: parse_sentiment_response_try_def strip_reply_numeric_reasoning
      extract_reply_numeric_reasoning stub_env_fields loads_numeric_reasoning
      check_sentiment_data_def bind_exn_def title_Positive labels_distinct)

lemma parse_try_reply_not_json:
  "parse_sentiment_response_try (stub_env out) reply_not_json = Inl JSONDecodeError"
  by (simp add: parse_sentiment_response_try_def strip_reply_not_json
      extract_reply_not_json stub_env_fields loads_not_json)

lemma parse_try_reply_no_json:
  "parse_sentiment_response_try (stub_env out) reply_no_json = Inr None"
  by (simp add: parse_sentiment_response_try_def strip_reply_no_json extract_reply_no_json)

lemma parse_bull_bear_reply_empty_cases:
  "parse_bull_bear_response (stub_env out) reply_empty_cases =
     Some (JObj [(lit ''bull_case'', JArr []), (lit ''bear_case'', JArr [])])"
  by (simp add: parse_bull_bear_response_def strip_reply_empty_cases extract_reply_empty_cases
      stub_env_fields loads_empty_cases)

lemma strip_reply_three_one: "py_strip reply_three_one = reply_three_one"
  by (simp add: py_strip_def reply_three_one_def lit_def py_isspace_def)

lemma extract_reply_three_one:
  \<open>extract_json_text reply_three_one = Some reply_three_one\<close>
proof -
  have 1: \<open>\<not> py_in (lit ''```json'') reply_three_one\<close>
    by (simp add: reply_three_one_def lit_def)
  have 2: \<open>py_in (lit ''{'') reply_three_one\<close> \<open>py_in (lit ''}'') reply_three_one\<close>
    by (simp_all add: reply_three_one_def lit_def)
  have 3: \<open>py_find reply_three_one (lit ''{'') 0 = 0\<close>
    by (simp add: reply_three_one_def lit_def py_find_def)
  have 4: \<open>py_rfind reply_three_one (lit ''}'') = 49\<close>
    by (simp add: reply_three_one_def lit_def py_rfind_def)
  have 5: \<open>py_slice reply_three_one 0 50 = reply_three_one\<close>
    by (simp add: reply_three_one_def lit_def py_slice_def slice_bound_def)
  show ?thesis
    by (simp add: extract_json_text_def 1 2 3 4 5)
qed

lemma loads_three_one:
  "stub_json_loads reply_three_one =
     Some (JObj [(lit ''bull_case'', JArr [JStr (lit ''a''), JStr (lit ''b''), JStr (lit ''c'')]),
                 (lit ''bear_case'', JArr [JStr (lit ''d'')])])"
  by (simp add: stub_json_loads_def reply_three_one_def lit_def)

lemma parse_bull_bear_reply_three_one:
  "parse_bull_bear_response (stub_env out) reply_three_one =
     Some (JObj [(lit ''bull_case'', JArr [JStr (lit ''a''), JStr (lit ''b''), JStr (lit ''c'')]),
                 (lit ''bear_case'', JArr [JStr (lit ''d'')])])"
  by (simp add: parse_bull_bear_response_def strip_reply_three_one extract_reply_three_one
      stub_env_fields loads_three_one)

lemma parse_bull_bear_reply_braces:
  "parse_bull_bear_response (stub_env out) reply_braces =
     Some (JObj [(lit ''sentiment'', JStr (lit ''Neutral'')), (lit ''reasoning'', JStr (lit ''y''))])"
  by (simp add: parse_bull_bear_response_def strip_reply_braces extract_reply_braces
      stub_env_fields loads_braces)

lemma reply_three_one_nonempty: "reply_three_one \<noteq> []"
  by (simp add: reply_three_one_def lit_def)

lemma narrative_keys_distinct:
  "lit ''bull_case'' \<noteq> lit ''sentiment''" "lit ''bull_case'' \<noteq> lit ''reasoning''"
  "lit ''bear_case'' \<noteq> lit ''bull_case''"
  by (simp_all add: lit_def)

lemma replies_nonempty:
  "reply_fenced \<noteq> []" "reply_braces \<noteq> []" "reply_no_json \<noteq> []" "reply_not_json \<noteq> []"
  "reply_numeric_reasoning \<noteq> []" "reply_confidence_five \<noteq> []" "reply_empty_cases \<noteq> []"
  by (simp_all add: reply_fenced_def reply_braces_def reply_no_json_def reply_not_json_def
      reply_numeric_reasoning_def reply_confidence_five_def reply_empty_cases_def lit_def)

lemma sample_result_fields:
  "sentiment (sample_result label text) = label"
  "reasoning (sample_result label text) = text"
  by (simp_all add: sample_result_def)

lemma sample_article_fields:
  "dict_get sample_article (lit ''title'') [] =
     lit ''Apple Reports Record Quarterly Revenue Growth''"
  "dict_get sample_article (lit ''source'') (lit ''Unknown'') = lit ''Financial Times''"
  by (simp_all add: dict_get_def sample_article_def lit_def)

lemma parse_bull_bear_reply_no_json:
  "parse_bull_bear_response (stub_env out) reply_no_json = None"
  by (simp add: parse_bull_bear_response_def strip_reply_no_json extract_reply_no_json)

lemma title_plain_Positive: "ascii_title (lit ''Positive'') = Positive"
  by (simp add: ascii_title_def lit_def Positive_def
      is_ascii_letter_def ascii_upper_def ascii_lower_def)

lemma first_request_raises_fields:
  "json_loads (first_request_raises reply) = stub_json_loads"
  "str_title (first_request_raises reply) = ascii_title"
  "generate_content (first_request_raises reply) n prompt =
     (if n = 0 then Raises else Text reply)"
  by (simp_all add: first_request_raises_def stub_env_def)

lemma parse_sentiment_response_env:
  assumes j: "json_loads ev = json_loads ev'" and t: "str_title ev = str_title ev'"
  shows "parse_sentiment_response ev text = parse_sentiment_response ev' text"
proof -
  have c: "check_sentiment_data ev d = check_sentiment_data ev' d" for d
    unfolding check_sentiment_data_def t ..
  show ?thesis
    unfolding parse_sentiment_response_def parse_sentiment_response_try_def j c ..
qed

lemma parse_reply_fenced_flaky:
  "parse_sentiment_response (first_request_raises reply) reply_fenced =
     Some \<lparr>parsed_sentiment = Positive, parsed_reasoning = lit ''x'',
           parsed_confidence = JNum (9 / 10)\<rparr>"
  using parse_sentiment_response_env [of "first_request_raises reply" "stub_env Raises"
      reply_fenced] parse_reply_fenced [of Raises]
  by (simp add: first_request_raises_fields stub_env_fields)

lemma analyze_reply_fenced:
  "snd (analyze_article_sentiment (stub_env (Text reply_fenced)) s sample_article) =
     Some \<lparr>sentiment = Positive, reasoning = lit ''x'', confidence = JNum (9 / 10),
           article_title = dict_get sample_article (lit ''title'') [],
           article_source = dict_get sample_article (lit ''source'') (lit ''Unknown'')\<rparr>"
  by (simp add: analyze_article_sentiment_result stub_env_fields replies_nonempty
      parse_reply_fenced)

lemma analyze_reply_braces:
  "snd (analyze_article_sentiment (stub_env (Text reply_braces)) s sample_article) =
     Some \<lparr>sentiment = Neutral, reasoning = lit ''y'', confidence = JNum (4 / 5),
           article_title = dict_get sample_article (lit ''title'') [],
           article_source = dict_get sample_article (lit ''source'') (lit ''Unknown'')\<rparr>"
  by (simp add: analyze_article_sentiment_result stub_env_fields replies_nonempty
      parse_reply_braces)

lemma analyze_reply_confidence_five:
  "snd (analyze_article_sentiment (stub_env (Text reply_confidence_five)) s sample_article) =
     Some \<lparr>sentiment = Positive, reasoning = lit ''x'', confidence = JNum 5,
           article_title = dict_get sample_article (lit ''title'') [],
           article_source = dict_get sample_article (lit ''source'') (lit ''Unknown'')\<rparr>"
  by (simp add: analyze_article_sentiment_result stub_env_fields replies_nonempty
      parse_reply_confidence_five)

lemma analyze_reply_numeric_reasoning:
  "snd (analyze_article_sentiment (stub_env (Text reply_numeric_reasoning)) s sample_article) = None"
  by (simp add: analyze_article_sentiment_result stub_env_fields replies_nonempty
      parse_sentiment_response_def parse_try_reply_numeric_reasoning)

lemma analyze_reply_not_json:
  "snd (analyze_article_sentiment (stub_env (Text reply_not_json)) s sample_article) = None"
  by (simp add: analyze_article_sentiment_result stub_env_fields replies_nonempty
      parse_sentiment_response_def parse_try_reply_not_json)

lemma analyze_reply_no_json:
  "snd (analyze_article_sentiment (stub_env (Text reply_no_json)) s sample_article) = None"
  by (simp add: analyze_article_sentiment_result stub_env_fields replies_nonempty
      parse_sentiment_response_def parse_try_reply_no_json)

lemma sentiments_split_35_35_30:
  "map sentiment split_35_35_30 =
     replicate 7 Positive @ replicate 7 Negative @ replicate 6 Neutral"
  by (simp add: split_35_35_30_def sample_result_fields)

lemma sentiments_split_60_40:
  "map sentiment split_60_40 = replicate 3 Positive @ replicate 2 Negative"
  by (simp add: split_60_40_def sample_result_fields)

lemma length_splits: "length split_35_35_30 = 20" "length split_60_40 = 5"
  by (simp_all add: split_35_35_30_def split_60_40_def)

lemma percentages_split_35_35_30:
  "label_percentage split_35_35_30 Positive = 35"
  "label_percentage split_35_35_30 Negative = 35"
  "label_percentage split_35_35_30 Neutral = 30"
  by (simp_all add: label_percentage_def sentiments_split_35_35_30 count_list_replicate
      labels_distinct length_splits)

lemma percentages_split_60_40:
  "label_percentage split_60_40 Positive = 60"
  "label_percentage split_60_40 Negative = 40"
  by (simp_all add: label_percentage_def sentiments_split_60_40 count_list_replicate
      labels_distinct length_splits)

lemma Counter_split_60_40:
  "Counter (map sentiment split_60_40) = [(Positive, 3), (Negative, 2)]"
  by (simp add: sentiments_split_60_40 Counter_def eval_nat_numeral labels_distinct)

section \<open>The claims\<close>

text \<open>
  C1. For every non-empty list of judgments the overall sentiment of the report is a label
  whose percentage is the highest among the labels present, except that it is Neutral when
  that highest percentage is strictly below 40. In particular 35% Positive, 35% Negative
  and 30% Neutral give Neutral, and 60% Positive with 40% Negative give Positive.
\<close>

theorem overall_sentiment_rule:
  assumes "js \<noteq> []"
  shows "(\<exists>label \<in> set (map sentiment js).
            (\<forall>l \<in> set (map sentiment js).
               label_percentage js l \<le> label_percentage js label) \<and>
            overall_sentiment (snd (generate_final_report ev s js name)) =
              (if label_percentage js label < 40 then Neutral else label)) \<and>
         (label_percentage js Positive = 35 \<and> label_percentage js Negative = 35 \<and>
          label_percentage js Neutral = 30 \<longrightarrow>
            overall_sentiment (snd (generate_final_report ev s js name)) = Neutral) \<and>
         (label_percentage js Positive = 60 \<and> label_percentage js Negative = 40 \<longrightarrow>
            overall_sentiment (snd (generate_final_report ev s js name)) = Positive)"
proof -
  from overall_sentiment_max [OF assms, of ev s name] obtain label where
    l: "label \<in> set (map sentiment js)"
    and mx: "\<forall>l \<in> set (map sentiment js). label_percentage js l \<le> label_percentage js label"
    and o: "overall_sentiment (snd (generate_final_report ev s js name)) =
              (if label_percentage js label < 40 then Neutral else label)"
    by blast
  have a: "label_percentage js Positive = 35 \<and> label_percentage js Negative = 35 \<and>
          label_percentage js Neutral = 30 \<longrightarrow>
            overall_sentiment (snd (generate_final_report ev s js name)) = Neutral"
  proof
    assume h: "label_percentage js Positive = 35 \<and> label_percentage js Negative = 35 \<and>
          label_percentage js Neutral = 30"
    have "label_percentage js label < 40"
    proof (cases "label = Positive \<or> label = Negative \<or> label = Neutral")
      case True
      with h show ?thesis by auto
    next
      case False
      then have "distinct [Positive, Negative, Neutral, label]"
        using labels_distinct by auto
      from label_percentage_sum4 [OF assms this] h show ?thesis by simp
    qed
    with o show "overall_sentiment (snd (generate_final_report ev s js name)) = Neutral"
      by simp
  qed
  have b: "label_percentage js Positive = 60 \<and> label_percentage js Negative = 40 \<longrightarrow>
            overall_sentiment (snd (generate_final_report ev s js name)) = Positive"
  proof
    assume h: "label_percentage js Positive = 60 \<and> label_percentage js Negative = 40"
    then have "Positive \<in> set (map sentiment js)"
      using label_percentage_zero [of Positive js] by auto
    with mx h have ge: "60 \<le> label_percentage js label" by auto
    have "label = Positive"
    proof (rule ccontr)
      assume "label \<noteq> Positive"
      from label_percentage_sum2 [OF assms this] h ge show False by simp
    qed
    with o h show "overall_sentiment (snd (generate_final_report ev s js name)) = Positive"
      by simp
  qed
  from l mx o a b show ?thesis by blast
qed

theorem overall_sentiment_rule_witness:
  "split_35_35_30 \<noteq> [] \<and> split_60_40 \<noteq> [] \<and>
   label_percentage split_35_35_30 Positive = 35 \<and>
   label_percentage split_35_35_30 Negative = 35 \<and>
   label_percentage split_35_35_30 Neutral = 30 \<and>
   overall_sentiment (snd (generate_final_report (stub_env Raises) (init_state 1000)
      split_35_35_30 (lit ''Acme''))) = Neutral \<and>
   label_percentage split_60_40 Positive = 60 \<and>
   label_percentage split_60_40 Negative = 40 \<and>
   overall_sentiment (snd (generate_final_report (stub_env Raises) (init_state 1000)
      split_60_40 (lit ''Acme''))) = Positive"
proof -
  have 1: "split_35_35_30 \<noteq> []" by (simp add: split_35_35_30_def)
  have 2: "split_60_40 \<noteq> []" by (simp add: split_60_40_def)
  from overall_sentiment_rule [OF 1, of "stub_env Raises" "init_state 1000" "lit ''Acme''"]
    overall_sentiment_rule [OF 2, of "stub_env Raises" "init_state 1000" "lit ''Acme''"]
    percentages_split_35_35_30 percentages_split_60_40 1 2
  show ?thesis by blast
qed

text \<open>
  C2 as stated fails: the reply \<^verbatim>\<open>{"sentiment": "Positive", "reasoning": 5}\<close> is found by
  the brace scan, decodes to a dict with both fields, and its title-cased sentiment is
  Positive; yet \<^verbatim>\<open>.strip()\<close> on the number raises and the result is absent.
\<close>

theorem classify_counterexample:
  "extract_json_text (py_strip reply_numeric_reasoning) = Some reply_numeric_reasoning \<and>
   json_loads (stub_env (Text reply_numeric_reasoning)) reply_numeric_reasoning =
     Some (JObj [(lit ''sentiment'', JStr (lit ''Positive'')), (lit ''reasoning'', JNum 5)]) \<and>
   py_contains (JObj [(lit ''sentiment'', JStr (lit ''Positive'')), (lit ''reasoning'', JNum 5)])
     (lit ''sentiment'') = Inr True \<and>
   py_contains (JObj [(lit ''sentiment'', JStr (lit ''Positive'')), (lit ''reasoning'', JNum 5)])
     (lit ''reasoning'') = Inr True \<and>
   str_title (stub_env (Text reply_numeric_reasoning)) (lit ''Positive'') = Positive \<and>
   snd (analyze_article_sentiment (stub_env (Text reply_numeric_reasoning)) (init_state 1000)
          sample_article) = None"
  using keys_distinct
  by (simp add: strip_reply_numeric_reasoning extract_reply_numeric_reasoning stub_env_fields
      loads_numeric_reasoning title_plain_Positive analyze_reply_numeric_reasoning)

text \<open>
  C2, amended. \<^verbatim>\<open>analyze_article_sentiment\<close> yields a judgment exactly when the reply
  is non-empty, the search finds a JSON text in the stripped reply (after a
  \<^verbatim>\<open>```json\<close> fence if there is one, otherwise from the first opening to the last closing
  brace), this text decodes to a dict whose \<open>sentiment\<close> and \<open>reasoning\<close> entries are both
  strings, and the sentiment, stripped and title-cased, is Positive, Negative or Neutral.
  In every other case the result is \<open>None\<close>.
\<close>

theorem classify_yields_iff:
  "snd (analyze_article_sentiment ev s article) = Some r \<longleftrightarrow>
     (\<exists>t block kvs sv rv.
        generate_content ev (requests s) (article_prompt article) = Text t \<and> t \<noteq> [] \<and>
        extract_json_text (py_strip t) = Some block \<and>
        json_loads ev block = Some (JObj kvs) \<and>
        map_of kvs (lit ''sentiment'') = Some (JStr sv) \<and>
        map_of kvs (lit ''reasoning'') = Some (JStr rv) \<and>
        str_title ev (py_strip sv) \<in> {Positive, Negative, Neutral} \<and>
        r = \<lparr>sentiment = str_title ev (py_strip sv),
             reasoning = py_strip rv,
             confidence =
               (case map_of kvs (lit ''confidence'') of None \<Rightarrow> JNum (4 / 5) | Some v \<Rightarrow> v),
             article_title = dict_get article (lit ''title'') [],
             article_source = dict_get article (lit ''source'') (lit ''Unknown'')\<rparr>)"
  by (rule analyze_article_sentiment_Some_iff)

theorem classify_yields_iff_witness:
  "snd (analyze_article_sentiment (stub_env (Text reply_fenced)) (init_state 1000)
          sample_article) =
     Some \<lparr>sentiment = lit ''Positive'', reasoning = lit ''x'', confidence = JNum (9 / 10),
           article_title = lit ''Apple Reports Record Quarterly Revenue Growth'',
           article_source = lit ''Financial Times''\<rparr> \<and>
   snd (analyze_article_sentiment (stub_env (Text reply_braces)) (init_state 1000)
          sample_article) =
     Some \<lparr>sentiment = lit ''Neutral'', reasoning = lit ''y'', confidence = JNum (4 / 5),
           article_title = lit ''Apple Reports Record Quarterly Revenue Growth'',
           article_source = lit ''Financial Times''\<rparr> \<and>
   snd (analyze_article_sentiment (stub_env (Text reply_no_json)) (init_state 1000)
          sample_article) = None"
proof -
  have 1: "snd (analyze_article_sentiment (stub_env (Text reply_fenced)) (init_state 1000)
          sample_article) =
     Some \<lparr>sentiment = lit ''Positive'', reasoning = lit ''x'', confidence = JNum (9 / 10),
           article_title = lit ''Apple Reports Record Quarterly Revenue Growth'',
           article_source = lit ''Financial Times''\<rparr>"
    unfolding classify_yields_iff
    using keys_distinct
    by (simp add: stub_env_fields replies_nonempty strip_reply_fenced extract_reply_fenced
        loads_fenced title_positive strip_x sample_article_fields Positive_def)
  have 2: "snd (analyze_article_sentiment (stub_env (Text reply_braces)) (init_state 1000)
          sample_article) =
     Some \<lparr>sentiment = lit ''Neutral'', reasoning = lit ''y'', confidence = JNum (4 / 5),
           article_title = lit ''Apple Reports Record Quarterly Revenue Growth'',
           article_source = lit ''Financial Times''\<rparr>"
    unfolding classify_yields_iff
    using keys_distinct
    by (simp add: stub_env_fields replies_nonempty strip_reply_braces extract_reply_braces
        loads_braces title_Neutral strip_x sample_article_fields Neutral_def)
  have "\<not> (\<exists>r. snd (analyze_article_sentiment (stub_env (Text reply_no_json))
            (init_state 1000) sample_article) = Some r)"
    unfolding classify_yields_iff
    by (simp add: stub_env_fields strip_reply_no_json extract_reply_no_json)
  then have 3: "snd (analyze_article_sentiment (stub_env (Text reply_no_json))
            (init_state 1000) sample_article) = None"
    by simp
  from 1 2 3 show ?thesis by blast
qed

text \<open>
  C3. For every company name, \<^verbatim>\<open>generate_final_report\<close> on an empty list of judgments
  returns the canonical empty report: overall sentiment Neutral, breakdown
  \<^verbatim>\<open>{Neutral: 0}\<close>, percentages \<^verbatim>\<open>{Neutral: 100.0}\<close>, the same single placeholder text in
  the bull and in the bear list, and both article counts zero. Only the timestamp depends
  on the run; no request is sent and the state is unchanged.
\<close>

theorem empty_report_canonical:
  "generate_final_report ev s [] company_name =
     (s, \<lparr>overall_sentiment = lit ''Neutral'',
          sentiment_breakdown = [(lit ''Neutral'', 0)],
          sentiment_percentages = [(lit ''Neutral'', 100)],
          bull_case = JArr [JStr ([8226, 32] @ lit ''No recent news available for analysis'')],
          bear_case = JArr [JStr ([8226, 32] @ lit ''No recent news available for analysis'')],
          total_articles = 0,
          analyzed_articles = 0,
          analysis_timestamp = strftime ev (clock s)\<rparr>)"
  by (simp add: generate_final_report_empty create_empty_report_def str_list_def Neutral_def)

text \<open>
  C4. For every non-empty list of judgments: the keys of \<open>sentiment_breakdown\<close> are
  exactly the labels that occur among the judgments, each once and with its number of
  occurrences; \<open>sentiment_percentages\<close> has the same keys, with
  \<open>100 * count / analyzed_articles\<close> for each; \<open>analyzed_articles\<close> is the sum of the
  counts; and the percentages sum to 100 (exactly, with rationals in place of floats).
\<close>

theorem breakdown_and_percentages:
  assumes "js \<noteq> []"
  shows "distinct (map fst (sentiment_breakdown (snd (generate_final_report ev s js name)))) \<and>
         (\<forall>k c. (k, c) \<in> set (sentiment_breakdown (snd (generate_final_report ev s js name)))
            \<longleftrightarrow> k \<in> set (map sentiment js) \<and> c = count_list (map sentiment js) k) \<and>
         map fst (sentiment_percentages (snd (generate_final_report ev s js name))) =
           map fst (sentiment_breakdown (snd (generate_final_report ev s js name))) \<and>
         (\<forall>k \<in> set (map sentiment js).
            map_of (sentiment_percentages (snd (generate_final_report ev s js name))) k =
              Some (100 * of_nat (count_list (map sentiment js) k) /
                      of_nat (analyzed_articles (snd (generate_final_report ev s js name))))) \<and>
         analyzed_articles (snd (generate_final_report ev s js name)) =
           sum_list (map snd (sentiment_breakdown (snd (generate_final_report ev s js name)))) \<and>
         sum_list (map snd (sentiment_percentages (snd (generate_final_report ev s js name)))) =
           100"
proof -
  let ?r = "snd (generate_final_report ev s js name)"
  let ?cs = "Counter (map sentiment js)"
  from generate_final_report_nonempty [OF assms, of ev s name]
  have b: "sentiment_breakdown ?r = ?cs"
    and p: "sentiment_percentages ?r =
              map (\<lambda>(label, c). (label, (of_nat c / of_nat (length js)) * 100)) ?cs"
    and n: "analyzed_articles ?r = length js"
    by auto
  have len: "(of_nat (length js) :: rat) \<noteq> 0" using assms by simp
  have 1: "distinct (map fst (sentiment_breakdown ?r))"
    unfolding b by (rule Counter_distinct)
  have 2: "\<forall>k c. (k, c) \<in> set (sentiment_breakdown ?r)
            \<longleftrightarrow> k \<in> set (map sentiment js) \<and> c = count_list (map sentiment js) k"
    unfolding b by (simp add: Counter_entries)
  have 3: "map fst (sentiment_percentages ?r) = map fst (sentiment_breakdown ?r)"
    unfolding b p by (simp add: case_prod_unfold comp_def)
  have 4: "\<forall>k \<in> set (map sentiment js).
            map_of (sentiment_percentages ?r) k =
              Some (100 * of_nat (count_list (map sentiment js) k) /
                      of_nat (analyzed_articles ?r))"
    unfolding p n map_of_percentages by (simp add: Counter_map_of)
  have 5: "analyzed_articles ?r = sum_list (map snd (sentiment_breakdown ?r))"
    unfolding b n by (simp add: Counter_sum)
  have 6: "sum_list (map snd (sentiment_percentages ?r)) = 100"
    unfolding p sum_percentages Counter_sum using len by simp
  from 1 2 3 4 5 6 show ?thesis by blast
qed

theorem breakdown_and_percentages_witness:
  "split_60_40 \<noteq> [] \<and>
   sentiment_breakdown (snd (generate_final_report (stub_env Raises) (init_state 1000)
      split_60_40 (lit ''Acme''))) = [(Positive, 3), (Negative, 2)] \<and>
   map_of (sentiment_percentages (snd (generate_final_report (stub_env Raises)
      (init_state 1000) split_60_40 (lit ''Acme'')))) Positive = Some 60 \<and>
   analyzed_articles (snd (generate_final_report (stub_env Raises) (init_state 1000)
      split_60_40 (lit ''Acme''))) = 5 \<and>
   sum_list (map snd (sentiment_percentages (snd (generate_final_report (stub_env Raises)
      (init_state 1000) split_60_40 (lit ''Acme''))))) = 100"
proof -
  let ?r = "snd (generate_final_report (stub_env Raises) (init_state 1000)
      split_60_40 (lit ''Acme''))"
  have ne: "split_60_40 \<noteq> []" by (simp add: split_60_40_def)
  have b: "sentiment_breakdown ?r = [(Positive, 3), (Negative, 2)]"
    using generate_final_report_nonempty [OF ne, of "stub_env Raises" "init_state 1000"
        "lit ''Acme''"]
    by (auto simp: Counter_split_60_40)
  have m: "Positive \<in> set (map sentiment split_60_40)"
    by (simp add: sentiments_split_60_40)
  have c: "count_list (map sentiment split_60_40) Positive = 3"
    by (simp add: sentiments_split_60_40 count_list_replicate labels_distinct)
  note t = breakdown_and_percentages [OF ne, of "stub_env Raises" "init_state 1000"
      "lit ''Acme''"]
  from t have a: "analyzed_articles ?r = 5"
    by (simp add: b)
  from t m have "map_of (sentiment_percentages ?r) Positive =
      Some (100 * of_nat (count_list (map sentiment split_60_40) Positive) /
              of_nat (analyzed_articles ?r))"
    by blast
  then have p: "map_of (sentiment_percentages ?r) Positive = Some 60"
    by (simp add: a c)
  from t ne b p a show ?thesis by blast
qed

text \<open>
  C5. Whenever the narrative call raises, returns an empty reply or returns a reply that
  cannot be parsed, the bull and bear lists are the default ones: the judgments are walked
  in their order, each Positive judgment gives the bullet, its reasoning cut to 100
  characters and three dots as an entry of the bull list, each Negative judgment likewise
  an entry of the bear list, each list is cut to five entries, and an empty list is replaced
  by one fixed placeholder. The report of a non-empty list carries these lists. With six
  Positive and one Negative judgment the bull list has five entries and the bear list one.
\<close>

theorem narrative_fallback:
  assumes "generate_content ev (requests s) (narrative_prompt name js) = Raises \<or>
           generate_content ev (requests s) (narrative_prompt name js) = Text [] \<or>
           (\<exists>t. generate_content ev (requests s) (narrative_prompt name js) = Text t \<and>
                parse_bull_bear_response ev t = None)"
  shows "snd (generate_bull_bear_cases ev s js name) =
           (str_list (take 5
              (if filter (\<lambda>r. sentiment r = Positive) js = []
               then [[8226, 32] @ lit ''Positive market sentiment detected in recent news'']
               else map (\<lambda>r. [8226, 32] @ take 100 (reasoning r) @ lit ''...'')
                      (filter (\<lambda>r. sentiment r = Positive) js))),
            str_list (take 5
              (if filter (\<lambda>r. sentiment r = Negative) js = []
               then [[8226, 32] @ lit ''Some concerns identified in recent coverage'']
               else map (\<lambda>r. [8226, 32] @ take 100 (reasoning r) @ lit ''...'')
                      (filter (\<lambda>r. sentiment r = Negative) js)))) \<and>
         (js \<noteq> [] \<longrightarrow>
            (bull_case (snd (generate_final_report ev s js name)),
             bear_case (snd (generate_final_report ev s js name))) =
            snd (generate_bull_bear_cases ev s js name)) \<and>
         (length (filter (\<lambda>r. sentiment r = Positive) js) = 6 \<and>
          length (filter (\<lambda>r. sentiment r = Negative) js) = 1 \<longrightarrow>
            (\<exists>bull bear. snd (generate_bull_bear_cases ev s js name) =
                (str_list bull, str_list bear) \<and> length bull = 5 \<and> length bear = 1))"
proof -
  have d: "snd (generate_bull_bear_cases ev s js name) = default_cases js"
    using assms by (auto simp: generate_bull_bear_cases_result)
  have point: "default_point = (\<lambda>r. [8226, 32] @ take 100 (reasoning r) @ lit ''...'')"
    by (simp add: default_point_def fun_eq_iff)
  have 1: "snd (generate_bull_bear_cases ev s js name) =
           (str_list (take 5
              (if filter (\<lambda>r. sentiment r = Positive) js = []
               then [[8226, 32] @ lit ''Positive market sentiment detected in recent news'']
               else map (\<lambda>r. [8226, 32] @ take 100 (reasoning r) @ lit ''...'')
                      (filter (\<lambda>r. sentiment r = Positive) js))),
            str_list (take 5
              (if filter (\<lambda>r. sentiment r = Negative) js = []
               then [[8226, 32] @ lit ''Some concerns identified in recent coverage'']
               else map (\<lambda>r. [8226, 32] @ take 100 (reasoning r) @ lit ''...'')
                      (filter (\<lambda>r. sentiment r = Negative) js))))"
    unfolding d default_cases_eq point ..
  have 2: "js \<noteq> [] \<longrightarrow>
            (bull_case (snd (generate_final_report ev s js name)),
             bear_case (snd (generate_final_report ev s js name))) =
            snd (generate_bull_bear_cases ev s js name)"
    using generate_final_report_cases [of js ev s name] by simp
  have 3: "length (filter (\<lambda>r. sentiment r = Positive) js) = 6 \<and>
          length (filter (\<lambda>r. sentiment r = Negative) js) = 1 \<longrightarrow>
            (\<exists>bull bear. snd (generate_bull_bear_cases ev s js name) =
                (str_list bull, str_list bear) \<and> length bull = 5 \<and> length bear = 1)"
  proof
    assume a: "length (filter (\<lambda>r. sentiment r = Positive) js) = 6 \<and>
          length (filter (\<lambda>r. sentiment r = Negative) js) = 1"
    then have ne: "filter (\<lambda>r. sentiment r = Positive) js \<noteq> []"
      "filter (\<lambda>r. sentiment r = Negative) js \<noteq> []"
      by auto
    show "\<exists>bull bear. snd (generate_bull_bear_cases ev s js name) =
                (str_list bull, str_list bear) \<and> length bull = 5 \<and> length bear = 1"
      unfolding d default_cases_eq using a ne
      by (intro exI conjI) (rule refl, simp_all)
  qed
  from 1 2 3 show ?thesis by blast
qed

theorem narrative_fallback_witness:
  "generate_content (stub_env Raises) (requests (init_state 1000))
     (narrative_prompt (lit ''Acme'') six_positive_one_negative) = Raises \<and>
   snd (generate_bull_bear_cases (stub_env Raises) (init_state 1000)
          six_positive_one_negative (lit ''Acme'')) =
     (str_list (replicate 5 ([8226, 32] @ lit ''good...'')),
      str_list [[8226, 32] @ lit ''bad...'']) \<and>
   generate_content (stub_env (Text [])) (requests (init_state 1000))
     (narrative_prompt (lit ''Acme'') [sample_result Positive (replicate 150 97)]) = Text [] \<and>
   snd (generate_bull_bear_cases (stub_env (Text [])) (init_state 1000)
          [sample_result Positive (replicate 150 97)] (lit ''Acme'')) =
     (str_list [[8226, 32] @ replicate 100 97 @ lit ''...''],
      str_list [[8226, 32] @ lit ''Some concerns identified in recent coverage'']) \<and>
   parse_bull_bear_response (stub_env (Text reply_no_json)) reply_no_json = None \<and>
   snd (generate_bull_bear_cases (stub_env (Text reply_no_json)) (init_state 1000)
          [sample_result Negative (lit ''bad'')] (lit ''Acme'')) =
     (str_list [[8226, 32] @ lit ''Positive market sentiment detected in recent news''],
      str_list [[8226, 32] @ lit ''bad...''])"
proof -
  have h: "generate_content (stub_env Raises) (requests (init_state 1000))
     (narrative_prompt (lit ''Acme'') six_positive_one_negative) = Raises"
    by (simp add: stub_env_fields)
  have f: "filter (\<lambda>r. sentiment r = Positive) six_positive_one_negative =
             replicate 6 (sample_result Positive (lit ''good''))"
    "filter (\<lambda>r. sentiment r = Negative) six_positive_one_negative =
             [sample_result Negative (lit ''bad'')]"
    by (simp_all add: six_positive_one_negative_def sample_result_fields labels_distinct)
  from narrative_fallback [of "stub_env Raises" "init_state 1000" "lit ''Acme''"
      six_positive_one_negative] h
  have 1: "snd (generate_bull_bear_cases (stub_env Raises) (init_state 1000)
          six_positive_one_negative (lit ''Acme'')) =
     (str_list (replicate 5 ([8226, 32] @ lit ''good...'')),
      str_list [[8226, 32] @ lit ''bad...''])"
    by (simp add: f sample_result_fields lit_def)
  have e: "generate_content (stub_env (Text [])) (requests (init_state 1000))
     (narrative_prompt (lit ''Acme'') [sample_result Positive (replicate 150 97)]) = Text []"
    by (simp add: stub_env_fields)
  from narrative_fallback [of "stub_env (Text [])" "init_state 1000" "lit ''Acme''"
      "[sample_result Positive (replicate 150 97)]"] e
  have 2: "snd (generate_bull_bear_cases (stub_env (Text [])) (init_state 1000)
          [sample_result Positive (replicate 150 97)] (lit ''Acme'')) =
     (str_list [[8226, 32] @ replicate 100 97 @ lit ''...''],
      str_list [[8226, 32] @ lit ''Some concerns identified in recent coverage''])"
    by (simp add: sample_result_fields labels_distinct)
  have u: "\<exists>t. generate_content (stub_env (Text reply_no_json)) (requests (init_state 1000))
       (narrative_prompt (lit ''Acme'') [sample_result Negative (lit ''bad'')]) = Text t \<and>
     parse_bull_bear_response (stub_env (Text reply_no_json)) t = None"
    by (simp add: stub_env_fields parse_bull_bear_reply_no_json)
  from narrative_fallback [of "stub_env (Text reply_no_json)" "init_state 1000" "lit ''Acme''"
      "[sample_result Negative (lit ''bad'')]"] u
  have 3: "snd (generate_bull_bear_cases (stub_env (Text reply_no_json)) (init_state 1000)
          [sample_result Negative (lit ''bad'')] (lit ''Acme'')) =
     (str_list [[8226, 32] @ lit ''Positive market sentiment detected in recent news''],
      str_list [[8226, 32] @ lit ''bad...''])"
    by (simp add: sample_result_fields labels_distinct lit_def)
  from h 1 e 2 3 parse_bull_bear_reply_no_json [of "Text reply_no_json"]
  show ?thesis by blast
qed

text \<open>
  C6 as stated fails: a narrative reply that decodes to an object with an empty
  \<open>bull_case\<close> list is stored as it is, so the report has an empty bull list.
\<close>

theorem case_lists_counterexample:
  "\<not> case_list_ok
      (bull_case (snd (generate_final_report (stub_env (Text reply_empty_cases))
         (init_state 1000) [sample_result Positive (lit ''good'')] (lit ''Acme''))))"
proof -
  have "bull_case (snd (generate_final_report (stub_env (Text reply_empty_cases))
         (init_state 1000) [sample_result Positive (lit ''good'')] (lit ''Acme''))) = JArr []"
    using keys_distinct
    by (simp add: generate_final_report_cases generate_bull_bear_cases_result stub_env_fields
        replies_nonempty parse_bull_bear_reply_empty_cases)
  then show ?thesis
    by (simp add: case_list_ok_def)
qed

text \<open>
  C6, amended. When the narrative reply is non-empty and decodes to a value holding a
  \<open>bull_case\<close> and a \<open>bear_case\<close> entry, the report stores these two values as they are,
  with no bound on their length. In every other case (the empty report and the default
  lists) the bull and the bear list both have between one and five entries, and for a
  non-empty list of judgments they are the default lists.
\<close>

theorem case_lists_bounds:
  "(\<forall>t d bull bear.
      js \<noteq> [] \<and>
      generate_content ev (requests s) (narrative_prompt name js) = Text t \<and> t \<noteq> [] \<and>
      parse_bull_bear_response ev t = Some d \<and>
      py_getitem d (lit ''bull_case'') = Inr bull \<and>
      py_getitem d (lit ''bear_case'') = Inr bear \<longrightarrow>
      bull_case (snd (generate_final_report ev s js name)) = bull \<and>
      bear_case (snd (generate_final_report ev s js name)) = bear) \<and>
   (\<not> (\<exists>t d bull bear.
      js \<noteq> [] \<and>
      generate_content ev (requests s) (narrative_prompt name js) = Text t \<and> t \<noteq> [] \<and>
      parse_bull_bear_response ev t = Some d \<and>
      py_getitem d (lit ''bull_case'') = Inr bull \<and>
      py_getitem d (lit ''bear_case'') = Inr bear) \<longrightarrow>
      case_list_ok (bull_case (snd (generate_final_report ev s js name))) \<and>
      case_list_ok (bear_case (snd (generate_final_report ev s js name))) \<and>
      (js \<noteq> [] \<longrightarrow>
         bull_case (snd (generate_final_report ev s js name)) = fst (default_cases js) \<and>
         bear_case (snd (generate_final_report ev s js name)) = snd (default_cases js)))"
proof (cases "js = []")
  case True
  then show ?thesis
    by (simp add: generate_final_report_empty create_empty_report_def case_list_ok_def
        str_list_def)
next
  case False
  from generate_final_report_cases [OF False, of ev s name]
  have b: "bull_case (snd (generate_final_report ev s js name)) =
             fst (snd (generate_bull_bear_cases ev s js name))"
    and r: "bear_case (snd (generate_final_report ev s js name)) =
             snd (snd (generate_bull_bear_cases ev s js name))"
    by simp_all
  have stored: "snd (generate_bull_bear_cases ev s js name) = (bull, bear)"
    if "generate_content ev (requests s) (narrative_prompt name js) = Text t" "t \<noteq> []"
      "parse_bull_bear_response ev t = Some d"
      "py_getitem d (lit ''bull_case'') = Inr bull" "py_getitem d (lit ''bear_case'') = Inr bear"
    for t d bull bear
    using that py_getitem_truthy [of d "lit ''bull_case''" bull]
    by (simp add: generate_bull_bear_cases_result)
  have fallback: "snd (generate_bull_bear_cases ev s js name) = default_cases js"
    if "\<not> (\<exists>t d bull bear.
      generate_content ev (requests s) (narrative_prompt name js) = Text t \<and> t \<noteq> [] \<and>
      parse_bull_bear_response ev t = Some d \<and>
      py_getitem d (lit ''bull_case'') = Inr bull \<and>
      py_getitem d (lit ''bear_case'') = Inr bear)"
    using that
    by (auto simp: generate_bull_bear_cases_result
        split: outcome.splits option.splits sum.splits)
  show ?thesis
  proof (intro conjI allI impI)
    fix t d bull bear
    assume "js \<noteq> [] \<and>
      generate_content ev (requests s) (narrative_prompt name js) = Text t \<and> t \<noteq> [] \<and>
      parse_bull_bear_response ev t = Some d \<and>
      py_getitem d (lit ''bull_case'') = Inr bull \<and>
      py_getitem d (lit ''bear_case'') = Inr bear"
    then have "snd (generate_bull_bear_cases ev s js name) = (bull, bear)"
      using stored [of t d bull bear] by simp
    then show "bull_case (snd (generate_final_report ev s js name)) = bull"
      and "bear_case (snd (generate_final_report ev s js name)) = bear"
      by (simp_all add: b r)
  next
    assume "\<not> (\<exists>t d bull bear.
      js \<noteq> [] \<and>
      generate_content ev (requests s) (narrative_prompt name js) = Text t \<and> t \<noteq> [] \<and>
      parse_bull_bear_response ev t = Some d \<and>
      py_getitem d (lit ''bull_case'') = Inr bull \<and>
      py_getitem d (lit ''bear_case'') = Inr bear)"
    with False have d: "snd (generate_bull_bear_cases ev s js name) = default_cases js"
      using fallback by simp
    from d default_cases_ok [of js]
    show "case_list_ok (bull_case (snd (generate_final_report ev s js name)))"
      and "case_list_ok (bear_case (snd (generate_final_report ev s js name)))"
      and "bull_case (snd (generate_final_report ev s js name)) = fst (default_cases js)"
      and "bear_case (snd (generate_final_report ev s js name)) = snd (default_cases js)"
      by (simp_all add: b r)
  qed
qed

theorem case_lists_bounds_witness:
  "bull_case (snd (generate_final_report (stub_env (Text reply_three_one)) (init_state 1000)
      six_positive_one_negative (lit ''Acme''))) =
     JArr [JStr (lit ''a''), JStr (lit ''b''), JStr (lit ''c'')] \<and>
   bear_case (snd (generate_final_report (stub_env (Text reply_three_one)) (init_state 1000)
      six_positive_one_negative (lit ''Acme''))) = JArr [JStr (lit ''d'')] \<and>
   case_list_ok (bull_case (snd (generate_final_report (stub_env Raises) (init_state 1000)
      six_positive_one_negative (lit ''Acme'')))) \<and>
   case_list_ok (bear_case (snd (generate_final_report (stub_env Raises) (init_state 1000)
      six_positive_one_negative (lit ''Acme'')))) \<and>
   bull_case (snd (generate_final_report (stub_env Raises) (init_state 1000)
      six_positive_one_negative (lit ''Acme''))) = fst (default_cases six_positive_one_negative)"
proof -
  have n: "six_positive_one_negative \<noteq> []"
    by (simp add: six_positive_one_negative_def)
  have t: "generate_content (stub_env (Text reply_three_one)) (requests (init_state 1000))
      (narrative_prompt (lit ''Acme'') six_positive_one_negative) = Text reply_three_one"
    by (simp add: stub_env_fields)
  have g1: "py_getitem
      (JObj [(lit ''bull_case'', JArr [JStr (lit ''a''), JStr (lit ''b''), JStr (lit ''c'')]),
             (lit ''bear_case'', JArr [JStr (lit ''d'')])]) (lit ''bull_case'') =
      Inr (JArr [JStr (lit ''a''), JStr (lit ''b''), JStr (lit ''c'')])"
    by simp
  have g2: "py_getitem
      (JObj [(lit ''bull_case'', JArr [JStr (lit ''a''), JStr (lit ''b''), JStr (lit ''c'')]),
             (lit ''bear_case'', JArr [JStr (lit ''d'')])]) (lit ''bear_case'') =
      Inr (JArr [JStr (lit ''d'')])"
    using narrative_keys_distinct by simp
  have r: "\<not> (\<exists>t d bull bear.
      six_positive_one_negative \<noteq> [] \<and>
      generate_content (stub_env Raises) (requests (init_state 1000))
        (narrative_prompt (lit ''Acme'') six_positive_one_negative) = Text t \<and> t \<noteq> [] \<and>
      parse_bull_bear_response (stub_env Raises) t = Some d \<and>
      py_getitem d (lit ''bull_case'') = Inr bull \<and>
      py_getitem d (lit ''bear_case'') = Inr bear)"
    by (simp add: stub_env_fields)
  from case_lists_bounds [where ev = "stub_env (Text reply_three_one)"
      and s = "init_state 1000" and js = six_positive_one_negative and name = "lit ''Acme''",
      THEN conjunct1]
    n t reply_three_one_nonempty g1 g2
    parse_bull_bear_reply_three_one [of "Text reply_three_one"]
  have a: "bull_case (snd (generate_final_report (stub_env (Text reply_three_one))
      (init_state 1000) six_positive_one_negative (lit ''Acme''))) =
     JArr [JStr (lit ''a''), JStr (lit ''b''), JStr (lit ''c'')] \<and>
   bear_case (snd (generate_final_report (stub_env (Text reply_three_one)) (init_state 1000)
      six_positive_one_negative (lit ''Acme''))) = JArr [JStr (lit ''d'')]"
    by blast
  from case_lists_bounds [where ev = "stub_env Raises"
      and s = "init_state 1000" and js = six_positive_one_negative and name = "lit ''Acme''",
      THEN conjunct2]
    n r
  have b: "case_list_ok (bull_case (snd (generate_final_report (stub_env Raises)
      (init_state 1000) six_positive_one_negative (lit ''Acme'')))) \<and>
   case_list_ok (bear_case (snd (generate_final_report (stub_env Raises) (init_state 1000)
      six_positive_one_negative (lit ''Acme'')))) \<and>
   bull_case (snd (generate_final_report (stub_env Raises) (init_state 1000)
      six_positive_one_negative (lit ''Acme''))) = fst (default_cases six_positive_one_negative)"
    by blast
  from a b show ?thesis by blast
qed

text \<open>
  C7 as stated fails: the confidence of the reply is stored unchecked, so the reply
  \<^verbatim>\<open>{"sentiment": "Positive", "reasoning": "x", "confidence": 5}\<close> gives a judgment with
  confidence 5.
\<close>

theorem confidence_counterexample:
  "map_option confidence
     (snd (analyze_article_sentiment (stub_env (Text reply_confidence_five)) (init_state 1000)
        sample_article)) = Some (JNum 5) \<and>
   \<not> confidence_in_range (JNum 5)"
  by (simp add: analyze_reply_confidence_five confidence_in_range_def)

text \<open>
  C7, amended. The confidence of every judgment is the \<open>confidence\<close> entry of the decoded
  reply as it is, and 0.8 when the decoded reply has no such entry.
\<close>

theorem confidence_as_decoded:
  assumes "snd (analyze_article_sentiment ev s article) = Some r"
  shows "\<exists>t block kvs.
           generate_content ev (requests s) (article_prompt article) = Text t \<and>
           extract_json_text (py_strip t) = Some block \<and>
           json_loads ev block = Some (JObj kvs) \<and>
           confidence r =
             (case map_of kvs (lit ''confidence'') of None \<Rightarrow> JNum (4 / 5) | Some v \<Rightarrow> v)"
proof -
  from assms obtain t block kvs sv rv where
    "generate_content ev (requests s) (article_prompt article) = Text t"
    "extract_json_text (py_strip t) = Some block"
    "json_loads ev block = Some (JObj kvs)"
    "r = \<lparr>sentiment = str_title ev (py_strip sv),
             reasoning = py_strip rv,
             confidence =
               (case map_of kvs (lit ''confidence'') of None \<Rightarrow> JNum (4 / 5) | Some v \<Rightarrow> v),
             article_title = dict_get article (lit ''title'') [],
             article_source = dict_get article (lit ''source'') (lit ''Unknown'')\<rparr>"
    unfolding analyze_article_sentiment_Some_iff by blast
  then show ?thesis by auto
qed

theorem confidence_as_decoded_witness:
  "snd (analyze_article_sentiment (stub_env (Text reply_braces)) (init_state 1000)
          sample_article) =
     Some \<lparr>sentiment = Neutral, reasoning = lit ''y'', confidence = JNum (4 / 5),
           article_title = dict_get sample_article (lit ''title'') [],
           article_source = dict_get sample_article (lit ''source'') (lit ''Unknown'')\<rparr> \<and>
   (\<exists>block kvs. extract_json_text (py_strip reply_braces) = Some block \<and>
          json_loads (stub_env (Text reply_braces)) block = Some (JObj kvs) \<and>
          map_of kvs (lit ''confidence'') = None \<and>
          JNum (4 / 5) =
            (case map_of kvs (lit ''confidence'') of None \<Rightarrow> JNum (4 / 5) | Some v \<Rightarrow> v))"
proof -
  let ?r = "\<lparr>sentiment = Neutral, reasoning = lit ''y'', confidence = JNum (4 / 5),
           article_title = dict_get sample_article (lit ''title'') [],
           article_source = dict_get sample_article (lit ''source'') (lit ''Unknown'')\<rparr>"
  have h: "snd (analyze_article_sentiment (stub_env (Text reply_braces)) (init_state 1000)
          sample_article) = Some ?r"
    by (rule analyze_reply_braces)
  from confidence_as_decoded [OF h] obtain t block kvs where
    t: "generate_content (stub_env (Text reply_braces)) (requests (init_state 1000))
          (article_prompt sample_article) = Text t"
    and b: "extract_json_text (py_strip t) = Some block"
    and k: "json_loads (stub_env (Text reply_braces)) block = Some (JObj kvs)"
    and c: "confidence ?r =
             (case map_of kvs (lit ''confidence'') of None \<Rightarrow> JNum (4 / 5) | Some v \<Rightarrow> v)"
    by blast
  from t have "t = reply_braces"
    by (simp add: stub_env_fields)
  with b have block: \<open>block = lit ''{"sentiment":"Neutral","reasoning":"y"}''\<close>
    by (simp add: strip_reply_braces extract_reply_braces)
  from k have kvs: "kvs = [(lit ''sentiment'', JStr (lit ''Neutral'')),
                           (lit ''reasoning'', JStr (lit ''y''))]"
    unfolding block by (simp add: stub_env_fields loads_braces)
  have n: "map_of kvs (lit ''confidence'') = None"
    unfolding kvs using keys_distinct by simp
  from b have b': "extract_json_text (py_strip reply_braces) = Some block"
    using \<open>t = reply_braces\<close> by simp
  from h b' k c n show ?thesis
    by auto
qed

text \<open>
  C8. No exception leaves the two operations.

  Classification: if the request raises, or the text found in the reply does not decode, or
  a check of the decoded value raises, or parsing raises in any way, the result is \<open>None\<close>.
  A classification sends exactly one request, so nothing is retried, and a batch sends
  exactly one request per article. An article whose result is \<open>None\<close> leaves the batch as it
  would be without it: the articles before and after it are analysed in turn and their
  results collected.

  Narrative: any exception of the \<^verbatim>\<open>try\<close> block of \<^verbatim>\<open>_generate_bull_bear_cases\<close> gives the
  default lists, which the report then stores. A raising request is one, a decoded value without a \<open>bull_case\<close> or a
  \<open>bear_case\<close> entry is another, and in both cases the report stores the default lists.

  Outer step: on any list, an exception of the \<^verbatim>\<open>try\<close> block of
  \<^verbatim>\<open>generate_final_report\<close> gives the empty report, with no request sent. An element
  that is no judgment raises \<^verbatim>\<open>AttributeError\<close> there, and the block raises in no other
  case: on a list of judgments it raises nothing (the division and the maximum are guarded
  by the emptiness test) and its report is returned.
\<close>

theorem no_exception_escapes:
  "(generate_content ev (requests s) (article_prompt article) = Raises \<longrightarrow>
      snd (analyze_article_sentiment_try ev s article) = Inl ServiceError \<and>
      snd (analyze_article_sentiment ev s article) = None) \<and>
   (\<forall>t block. generate_content ev (requests s) (article_prompt article) = Text t \<and>
          extract_json_text (py_strip t) = Some block \<and> json_loads ev block = None \<longrightarrow>
      parse_sentiment_response_try ev t = Inl JSONDecodeError \<and>
      snd (analyze_article_sentiment ev s article) = None) \<and>
   (\<forall>t block d e. generate_content ev (requests s) (article_prompt article) = Text t \<and>
          extract_json_text (py_strip t) = Some block \<and> json_loads ev block = Some d \<and>
          check_sentiment_data ev d = Inl e \<longrightarrow>
      parse_sentiment_response_try ev t = Inl e \<and>
      snd (analyze_article_sentiment ev s article) = None) \<and>
   (\<forall>t e. generate_content ev (requests s) (article_prompt article) = Text t \<and>
          parse_sentiment_response_try ev t = Inl e \<longrightarrow>
      snd (analyze_article_sentiment ev s article) = None) \<and>
   requests (fst (analyze_article_sentiment ev s article)) = Suc (requests s) \<and>
   requests (fst (analyze_articles ev s articles)) = requests s + length articles \<and>
   (\<forall>s1 rs s2. analyze_articles ev s before = (s1, rs) \<and>
          analyze_article_sentiment ev s1 article = (s2, None) \<longrightarrow>
      analyze_articles ev s (before @ article # after) =
        (fst (analyze_articles ev s2 after), rs @ snd (analyze_articles ev s2 after))) \<and>
   (\<forall>e. snd (generate_bull_bear_cases_try ev s js name) = Inl e \<longrightarrow>
      snd (generate_bull_bear_cases ev s js name) = default_cases js \<and>
      (js \<noteq> [] \<longrightarrow>
         bull_case (snd (generate_final_report ev s js name)) = fst (default_cases js) \<and>
         bear_case (snd (generate_final_report ev s js name)) = snd (default_cases js))) \<and>
   (js \<noteq> [] \<and> generate_content ev (requests s) (narrative_prompt name js) = Raises \<longrightarrow>
      snd (generate_bull_bear_cases_try ev s js name) = Inl ServiceError \<and>
      bull_case (snd (generate_final_report ev s js name)) = fst (default_cases js) \<and>
      bear_case (snd (generate_final_report ev s js name)) = snd (default_cases js)) \<and>
   (\<forall>t d. js \<noteq> [] \<and>
          generate_content ev (requests s) (narrative_prompt name js) = Text t \<and> t \<noteq> [] \<and>
          parse_bull_bear_response ev t = Some d \<and> py_truthy d \<and>
          ((\<exists>e. py_getitem d (lit ''bull_case'') = Inl e) \<or>
           (\<exists>e. py_getitem d (lit ''bear_case'') = Inl e)) \<longrightarrow>
      (\<exists>e. snd (generate_bull_bear_cases_try ev s js name) = Inl e) \<and>
      bull_case (snd (generate_final_report ev s js name)) = fst (default_cases js) \<and>
      bear_case (snd (generate_final_report ev s js name)) = snd (default_cases js)) \<and>
   (\<forall>e. snd (generate_final_report_any_try ev s objs name) = Inl e \<longrightarrow>
      generate_final_report_any ev s objs name = (s, create_empty_report ev s name)) \<and>
   (NotAJudgment \<in> set objs \<longrightarrow>
      snd (generate_final_report_any_try ev s objs name) = Inl AttributeError \<and>
      generate_final_report_any ev s objs name = (s, create_empty_report ev s name)) \<and>
   ((\<exists>e. snd (generate_final_report_any_try ev s objs name) = Inl e) \<longleftrightarrow>
      NotAJudgment \<in> set objs) \<and>
   (\<exists>report. snd (generate_final_report_any_try ev s (map Judgment js) name) = Inr report \<and>
      snd (generate_final_report ev s js name) = report)"
proof (intro conjI)
  show "generate_content ev (requests s) (article_prompt article) = Raises \<longrightarrow>
      snd (analyze_article_sentiment_try ev s article) = Inl ServiceError \<and>
      snd (analyze_article_sentiment ev s article) = None"
    by (simp add: analyze_article_sentiment_try_raises analyze_article_sentiment_result)
next
  show "\<forall>t block. generate_content ev (requests s) (article_prompt article) = Text t \<and>
          extract_json_text (py_strip t) = Some block \<and> json_loads ev block = None \<longrightarrow>
      parse_sentiment_response_try ev t = Inl JSONDecodeError \<and>
      snd (analyze_article_sentiment ev s article) = None"
    using parse_sentiment_response_try_decode [of _ _ ev]
      analyze_article_sentiment_parse_raises [of ev s article]
    by blast
next
  show "\<forall>t block d e. generate_content ev (requests s) (article_prompt article) = Text t \<and>
          extract_json_text (py_strip t) = Some block \<and> json_loads ev block = Some d \<and>
          check_sentiment_data ev d = Inl e \<longrightarrow>
      parse_sentiment_response_try ev t = Inl e \<and>
      snd (analyze_article_sentiment ev s article) = None"
  proof (intro allI impI)
    fix t block d e
    assume h: "generate_content ev (requests s) (article_prompt article) = Text t \<and>
          extract_json_text (py_strip t) = Some block \<and> json_loads ev block = Some d \<and>
          check_sentiment_data ev d = Inl e"
    then have p: "parse_sentiment_response_try ev t = Inl e"
      using parse_sentiment_response_try_check [of t block ev d] by simp
    with h analyze_article_sentiment_parse_raises [of ev s article t e]
    show "parse_sentiment_response_try ev t = Inl e \<and>
      snd (analyze_article_sentiment ev s article) = None"
      by simp
  qed
next
  show "\<forall>t e. generate_content ev (requests s) (article_prompt article) = Text t \<and>
          parse_sentiment_response_try ev t = Inl e \<longrightarrow>
      snd (analyze_article_sentiment ev s article) = None"
    using analyze_article_sentiment_parse_raises [of ev s article] by blast
next
  show "requests (fst (analyze_article_sentiment ev s article)) = Suc (requests s)"
    by (rule analyze_article_sentiment_requests)
next
  show "requests (fst (analyze_articles ev s articles)) = requests s + length articles"
    by (rule analyze_articles_requests)
next
  show "\<forall>s1 rs s2. analyze_articles ev s before = (s1, rs) \<and>
          analyze_article_sentiment ev s1 article = (s2, None) \<longrightarrow>
      analyze_articles ev s (before @ article # after) =
        (fst (analyze_articles ev s2 after), rs @ snd (analyze_articles ev s2 after))"
    using analyze_articles_skip [of ev s before _ _ article _ after] by blast
next
  show "\<forall>e. snd (generate_bull_bear_cases_try ev s js name) = Inl e \<longrightarrow>
      snd (generate_bull_bear_cases ev s js name) = default_cases js \<and>
      (js \<noteq> [] \<longrightarrow>
         bull_case (snd (generate_final_report ev s js name)) = fst (default_cases js) \<and>
         bear_case (snd (generate_final_report ev s js name)) = snd (default_cases js))"
    by (simp add: generate_bull_bear_cases_handler generate_final_report_cases)
next
  show "js \<noteq> [] \<and> generate_content ev (requests s) (narrative_prompt name js) = Raises \<longrightarrow>
      snd (generate_bull_bear_cases_try ev s js name) = Inl ServiceError \<and>
      bull_case (snd (generate_final_report ev s js name)) = fst (default_cases js) \<and>
      bear_case (snd (generate_final_report ev s js name)) = snd (default_cases js)"
    by (simp add: generate_bull_bear_cases_try_raises generate_final_report_cases
        generate_bull_bear_cases_result)
next
  show "\<forall>t d. js \<noteq> [] \<and>
          generate_content ev (requests s) (narrative_prompt name js) = Text t \<and> t \<noteq> [] \<and>
          parse_bull_bear_response ev t = Some d \<and> py_truthy d \<and>
          ((\<exists>e. py_getitem d (lit ''bull_case'') = Inl e) \<or>
           (\<exists>e. py_getitem d (lit ''bear_case'') = Inl e)) \<longrightarrow>
      (\<exists>e. snd (generate_bull_bear_cases_try ev s js name) = Inl e) \<and>
      bull_case (snd (generate_final_report ev s js name)) = fst (default_cases js) \<and>
      bear_case (snd (generate_final_report ev s js name)) = snd (default_cases js)"
  proof (intro allI impI)
    fix t d
    assume h: "js \<noteq> [] \<and>
          generate_content ev (requests s) (narrative_prompt name js) = Text t \<and> t \<noteq> [] \<and>
          parse_bull_bear_response ev t = Some d \<and> py_truthy d \<and>
          ((\<exists>e. py_getitem d (lit ''bull_case'') = Inl e) \<or>
           (\<exists>e. py_getitem d (lit ''bear_case'') = Inl e))"
    then have "snd (generate_bull_bear_cases_try ev s js name) =
           bind_exn (py_getitem d (lit ''bull_case'')) (\<lambda>bull.
           bind_exn (py_getitem d (lit ''bear_case'')) (\<lambda>bear. Inr (bull, bear)))"
      using generate_bull_bear_cases_try_getitem [of ev s name js t d] by simp
    with h have r: "\<exists>e. snd (generate_bull_bear_cases_try ev s js name) = Inl e"
      by (auto simp: bind_exn_def split: sum.splits)
    then have "snd (generate_bull_bear_cases ev s js name) = default_cases js"
      using generate_bull_bear_cases_handler [of ev s js name] by blast
    with h r show "(\<exists>e. snd (generate_bull_bear_cases_try ev s js name) = Inl e) \<and>
      bull_case (snd (generate_final_report ev s js name)) = fst (default_cases js) \<and>
      bear_case (snd (generate_final_report ev s js name)) = snd (default_cases js)"
      by (simp add: generate_final_report_cases)
  qed
next
  show "\<forall>e. snd (generate_final_report_any_try ev s objs name) = Inl e \<longrightarrow>
      generate_final_report_any ev s objs name = (s, create_empty_report ev s name)"
    using generate_final_report_any_handler [of ev s objs name] by blast
next
  show "NotAJudgment \<in> set objs \<longrightarrow>
      snd (generate_final_report_any_try ev s objs name) = Inl AttributeError \<and>
      generate_final_report_any ev s objs name = (s, create_empty_report ev s name)"
    using generate_final_report_any_raises [of objs ev s name]
      generate_final_report_any_handler [of ev s objs name AttributeError]
    by simp
next
  show "(\<exists>e. snd (generate_final_report_any_try ev s objs name) = Inl e) \<longleftrightarrow>
      NotAJudgment \<in> set objs"
    by (rule generate_final_report_any_raises_iff)
next
  show "\<exists>report. snd (generate_final_report_any_try ev s (map Judgment js) name) = Inr report \<and>
      snd (generate_final_report ev s js name) = report"
    by (rule generate_final_report_try_Inr)
qed

theorem no_exception_escapes_witness:
  "snd (analyze_article_sentiment (stub_env Raises) (init_state 1000) sample_article) = None \<and>
   parse_sentiment_response_try (stub_env (Text reply_not_json)) reply_not_json =
      Inl JSONDecodeError \<and>
   snd (analyze_article_sentiment (stub_env (Text reply_not_json)) (init_state 1000)
      sample_article) = None \<and>
   parse_sentiment_response_try (stub_env (Text reply_numeric_reasoning))
      reply_numeric_reasoning = Inl AttributeError \<and>
   snd (analyze_article_sentiment (stub_env (Text reply_numeric_reasoning)) (init_state 1000)
      sample_article) = None \<and>
   snd (analyze_articles (first_request_raises reply_fenced) (init_state 1000)
      [sample_article, sample_article]) =
     [\<lparr>sentiment = Positive, reasoning = lit ''x'', confidence = JNum (9 / 10),
       article_title = lit ''Apple Reports Record Quarterly Revenue Growth'',
       article_source = lit ''Financial Times''\<rparr>] \<and>
   snd (generate_bull_bear_cases (stub_env Raises) (init_state 1000)
      six_positive_one_negative (lit ''Acme'')) = default_cases six_positive_one_negative \<and>
   bull_case (snd (generate_final_report (stub_env Raises) (init_state 1000)
      six_positive_one_negative (lit ''Acme''))) = fst (default_cases six_positive_one_negative) \<and>
   bear_case (snd (generate_final_report (stub_env (Text reply_braces)) (init_state 1000)
      six_positive_one_negative (lit ''Acme''))) = snd (default_cases six_positive_one_negative) \<and>
   generate_final_report_any (stub_env Raises) (init_state 1000)
      [Judgment (sample_result Positive (lit ''good'')), NotAJudgment] (lit ''Acme'') =
     (init_state 1000, create_empty_report (stub_env Raises) (init_state 1000) (lit ''Acme''))"
proof -
  let ?s = "init_state 1000"
  let ?six = six_positive_one_negative
  let ?objs = "[Judgment (sample_result Positive (lit ''good'')), NotAJudgment]"
  let ?flaky = "first_request_raises reply_fenced"
  have n: "?six \<noteq> []"
    by (simp add: six_positive_one_negative_def)
  have a1: "generate_content (stub_env Raises) (requests ?s) (article_prompt sample_article) =
      Raises"
    by (simp add: stub_env_fields)
  have a2: "generate_content (stub_env (Text reply_not_json)) (requests ?s)
      (article_prompt sample_article) = Text reply_not_json"
    "extract_json_text (py_strip reply_not_json) = Some reply_not_json"
    "json_loads (stub_env (Text reply_not_json)) reply_not_json = None"
    by (simp_all add: stub_env_fields strip_reply_not_json extract_reply_not_json loads_not_json)
  have a3: "generate_content (stub_env (Text reply_numeric_reasoning)) (requests ?s)
      (article_prompt sample_article) = Text reply_numeric_reasoning"
    "extract_json_text (py_strip reply_numeric_reasoning) = Some reply_numeric_reasoning"
    "json_loads (stub_env (Text reply_numeric_reasoning)) reply_numeric_reasoning =
       Some (JObj [(lit ''sentiment'', JStr (lit ''Positive'')), (lit ''reasoning'', JNum 5)])"
    by (simp_all add: stub_env_fields strip_reply_numeric_reasoning
        extract_reply_numeric_reasoning loads_numeric_reasoning)
  have a3': "check_sentiment_data (stub_env (Text reply_numeric_reasoning))
      (JObj [(lit ''sentiment'', JStr (lit ''Positive'')), (lit ''reasoning'', JNum 5)]) =
      Inl AttributeError"
    using parse_sentiment_response_try_check [OF a3(2) a3(3)]
      parse_try_reply_numeric_reasoning [of "Text reply_numeric_reasoning"]
    by simp
  have b1: "analyze_articles ?flaky ?s [] = (?s, [])"
    by simp
  have b2: "analyze_article_sentiment ?flaky ?s sample_article =
      (fst (analyze_article_sentiment ?flaky ?s sample_article), None)"
    using analyze_article_sentiment_result [of ?flaky ?s sample_article]
    by (simp add: first_request_raises_fields init_state_def prod_eq_iff)
  have b3: "snd (analyze_articles ?flaky (fst (analyze_article_sentiment ?flaky ?s sample_article))
      [sample_article]) =
     [\<lparr>sentiment = Positive, reasoning = lit ''x'', confidence = JNum (9 / 10),
       article_title = lit ''Apple Reports Record Quarterly Revenue Growth'',
       article_source = lit ''Financial Times''\<rparr>]"
  proof -
    have "requests (fst (analyze_article_sentiment ?flaky ?s sample_article)) = Suc 0"
      by (simp add: analyze_article_sentiment_requests init_state_def)
    then have "snd (analyze_article_sentiment ?flaky
        (fst (analyze_article_sentiment ?flaky ?s sample_article)) sample_article) =
      Some \<lparr>sentiment = Positive, reasoning = lit ''x'', confidence = JNum (9 / 10),
       article_title = lit ''Apple Reports Record Quarterly Revenue Growth'',
       article_source = lit ''Financial Times''\<rparr>"
      by (simp add: analyze_article_sentiment_result first_request_raises_fields
          replies_nonempty parse_reply_fenced_flaky sample_article_fields)
    then show ?thesis
      by (auto split: prod.splits)
  qed
  have c1: "generate_content (stub_env Raises) (requests ?s)
      (narrative_prompt (lit ''Acme'') ?six) = Raises"
    by (simp add: stub_env_fields)
  have c2: "generate_content (stub_env (Text reply_braces)) (requests ?s)
      (narrative_prompt (lit ''Acme'') ?six) = Text reply_braces"
    "reply_braces \<noteq> []"
    "parse_bull_bear_response (stub_env (Text reply_braces)) reply_braces =
       Some (JObj [(lit ''sentiment'', JStr (lit ''Neutral'')), (lit ''reasoning'', JStr (lit ''y''))])"
    "py_truthy (JObj [(lit ''sentiment'', JStr (lit ''Neutral'')),
       (lit ''reasoning'', JStr (lit ''y''))])"
    by (simp_all add: stub_env_fields replies_nonempty parse_bull_bear_reply_braces)
  have c3: "py_getitem (JObj [(lit ''sentiment'', JStr (lit ''Neutral'')),
       (lit ''reasoning'', JStr (lit ''y''))]) (lit ''bull_case'') = Inl KeyError"
    using narrative_keys_distinct by simp
  have d1: "NotAJudgment \<in> set ?objs"
    by simp
  note raises = no_exception_escapes [where ev = "stub_env Raises" and s = ?s
      and article = sample_article and articles = "[sample_article]" and before = "[]"
      and after = "[]" and js = ?six and name = "lit ''Acme''" and objs = ?objs]
  note not_json = no_exception_escapes [where ev = "stub_env (Text reply_not_json)" and s = ?s
      and article = sample_article and articles = "[sample_article]" and before = "[]"
      and after = "[]" and js = ?six and name = "lit ''Acme''" and objs = ?objs]
  note numeric = no_exception_escapes [where ev = "stub_env (Text reply_numeric_reasoning)"
      and s = ?s and article = sample_article and articles = "[sample_article]"
      and before = "[]" and after = "[]" and js = ?six and name = "lit ''Acme''"
      and objs = ?objs]
  note flaky = no_exception_escapes [where ev = ?flaky and s = ?s
      and article = sample_article and articles = "[sample_article]" and before = "[]"
      and after = "[sample_article]" and js = ?six and name = "lit ''Acme''" and objs = ?objs]
  note braces = no_exception_escapes [where ev = "stub_env (Text reply_braces)" and s = ?s
      and article = sample_article and articles = "[sample_article]" and before = "[]"
      and after = "[]" and js = ?six and name = "lit ''Acme''" and objs = ?objs]
  from raises [THEN conjunct1] a1 have w1:
    "snd (analyze_article_sentiment (stub_env Raises) ?s sample_article) = None"
    by simp
  from not_json [THEN conjunct2, THEN conjunct1] a2 have w2:
    "parse_sentiment_response_try (stub_env (Text reply_not_json)) reply_not_json =
      Inl JSONDecodeError \<and>
     snd (analyze_article_sentiment (stub_env (Text reply_not_json)) ?s sample_article) = None"
    by blast
  from numeric [THEN conjunct2, THEN conjunct2, THEN conjunct1] a3 a3' have w3:
    "parse_sentiment_response_try (stub_env (Text reply_numeric_reasoning))
      reply_numeric_reasoning = Inl AttributeError \<and>
     snd (analyze_article_sentiment (stub_env (Text reply_numeric_reasoning)) ?s
       sample_article) = None"
    by blast
  from numeric [THEN conjunct2, THEN conjunct2, THEN conjunct2, THEN conjunct1] a3(1) w3 have w3':
    "snd (analyze_article_sentiment (stub_env (Text reply_numeric_reasoning)) ?s
       sample_article) = None"
    by blast
  from flaky [THEN conjunct2, THEN conjunct2, THEN conjunct2, THEN conjunct2, THEN conjunct2, THEN conjunct2, THEN conjunct1] b1 b2
  have "analyze_articles ?flaky ?s ([] @ sample_article # [sample_article]) =
      (fst (analyze_articles ?flaky (fst (analyze_article_sentiment ?flaky ?s sample_article))
         [sample_article]),
       [] @ snd (analyze_articles ?flaky (fst (analyze_article_sentiment ?flaky ?s sample_article))
         [sample_article]))"
    by blast
  then have w4: "snd (analyze_articles ?flaky ?s [sample_article, sample_article]) =
     [\<lparr>sentiment = Positive, reasoning = lit ''x'', confidence = JNum (9 / 10),
       article_title = lit ''Apple Reports Record Quarterly Revenue Growth'',
       article_source = lit ''Financial Times''\<rparr>]"
    using b3 by simp
  from raises [THEN conjunct2, THEN conjunct2, THEN conjunct2, THEN conjunct2, THEN conjunct2, THEN conjunct2, THEN conjunct2, THEN conjunct2, THEN conjunct1] n c1 have w5:
    "snd (generate_bull_bear_cases_try (stub_env Raises) ?s ?six (lit ''Acme'')) =
       Inl ServiceError \<and>
     bull_case (snd (generate_final_report (stub_env Raises) ?s ?six (lit ''Acme''))) =
       fst (default_cases ?six)"
    by blast
  from raises [THEN conjunct2, THEN conjunct2, THEN conjunct2, THEN conjunct2, THEN conjunct2, THEN conjunct2, THEN conjunct2, THEN conjunct1] w5 have w5':
    "snd (generate_bull_bear_cases (stub_env Raises) ?s ?six (lit ''Acme'')) =
       default_cases ?six"
    by blast
  from braces [THEN conjunct2, THEN conjunct2, THEN conjunct2, THEN conjunct2, THEN conjunct2, THEN conjunct2, THEN conjunct2, THEN conjunct2, THEN conjunct2, THEN conjunct1] n c2 c3 have w6:
    "bear_case (snd (generate_final_report (stub_env (Text reply_braces)) ?s ?six
       (lit ''Acme''))) = snd (default_cases ?six)"
    by blast
  from raises [THEN conjunct2, THEN conjunct2, THEN conjunct2, THEN conjunct2, THEN conjunct2, THEN conjunct2, THEN conjunct2, THEN conjunct2, THEN conjunct2, THEN conjunct2, THEN conjunct2, THEN conjunct1] d1 have w7':
    "snd (generate_final_report_any_try (stub_env Raises) ?s ?objs (lit ''Acme'')) =
       Inl AttributeError"
    by blast
  from raises [THEN conjunct2, THEN conjunct2, THEN conjunct2, THEN conjunct2, THEN conjunct2, THEN conjunct2, THEN conjunct2, THEN conjunct2, THEN conjunct2, THEN conjunct2, THEN conjunct1] w7' have w7:
    "generate_final_report_any (stub_env Raises) ?s ?objs (lit ''Acme'') =
       (?s, create_empty_report (stub_env Raises) ?s (lit ''Acme''))"
    by blast
  from w1 w2 w3 w4 w5 w5' w6 w7 show ?thesis
    by simp
qed

text \<open>
  C9. Classification and narrative generation share one limiter. Provided
  \<^verbatim>\<open>time.sleep\<close> never returns early: when less than \<open>min_request_interval\<close> has
  elapsed since the previous call the limiter waits at least for the remaining time; the
  time it stamps on release, just before the request is built and sent, is at least
  \<open>min_request_interval\<close> after the previous stamp; and so for two consecutive calls
  (two classifications, or a classification followed by the narrative call) the second
  call's start is at least \<open>min_request_interval\<close> after the first call's start, whatever
  time has passed in between.
\<close>

theorem rate_limit_spacing:
  assumes "0 \<le> oversleep ev"
  shows "(clock s - last_request_time s < min_request_interval s \<longrightarrow>
            clock s + (min_request_interval s - (clock s - last_request_time s))
              \<le> clock (rate_limit ev s)) \<and>
         last_request_time s + min_request_interval s \<le> last_request_time (rate_limit ev s) \<and>
         last_request_time (fst (analyze_article_sentiment ev s article)) =
           last_request_time (rate_limit ev s) \<and>
         last_request_time (fst (generate_bull_bear_cases ev s js name)) =
           last_request_time (rate_limit ev s) \<and>
         last_request_time (fst (analyze_article_sentiment ev s article)) +
             min_request_interval s
           \<le> last_request_time
               (fst (analyze_article_sentiment ev
                  (fst (analyze_article_sentiment ev s article)) article')) \<and>
         last_request_time (fst (analyze_article_sentiment ev s article)) +
             min_request_interval s
           \<le> last_request_time
               (fst (generate_bull_bear_cases ev
                  (fst (analyze_article_sentiment ev s article)) js name))"
proof -
  let ?s1 = "fst (analyze_article_sentiment ev s article)"
  have l1: "last_request_time ?s1 = last_request_time (rate_limit ev s)"
    by (simp add: analyze_article_sentiment_state send_request_fields)
  have m1: "min_request_interval ?s1 = min_request_interval s"
    by (simp add: analyze_article_sentiment_state send_request_fields rate_limit_fields)
  have a: "last_request_time ?s1 + min_request_interval s
      \<le> last_request_time (rate_limit ev ?s1)"
    using rate_limit_stamp [OF assms, of ?s1] by (simp add: m1)
  have b: "clock s - last_request_time s < min_request_interval s \<longrightarrow>
            clock s + (min_request_interval s - (clock s - last_request_time s))
              \<le> clock (rate_limit ev s)"
    using assms by (simp add: rate_limit_fields)
  show ?thesis
    using a b rate_limit_stamp [OF assms, of s] l1
    by (simp add: analyze_article_sentiment_state generate_bull_bear_cases_state
        send_request_fields)
qed

theorem rate_limit_spacing_witness:
  "0 \<le> oversleep (stub_env Raises) \<and>
   last_request_time
     (fst (analyze_article_sentiment (stub_env Raises) (init_state 1000) sample_article)) = 1000 \<and>
   clock (fst (analyze_article_sentiment (stub_env Raises) (init_state 1000) sample_article)) -
     last_request_time
       (fst (analyze_article_sentiment (stub_env Raises) (init_state 1000) sample_article))
     < min_request_interval
         (fst (analyze_article_sentiment (stub_env Raises) (init_state 1000) sample_article)) \<and>
   1001 + (5 - (1001 - 1000))
     \<le> clock (rate_limit (stub_env Raises)
         (fst (analyze_article_sentiment (stub_env Raises) (init_state 1000) sample_article))) \<and>
   last_request_time
     (fst (analyze_article_sentiment (stub_env Raises)
        (fst (analyze_article_sentiment (stub_env Raises) (init_state 1000) sample_article))
        sample_article)) = 1005 \<and>
   1000 + min_request_interval (init_state 1000)
     \<le> last_request_time
         (fst (analyze_article_sentiment (stub_env Raises)
            (fst (analyze_article_sentiment (stub_env Raises) (init_state 1000) sample_article))
            sample_article))"
proof -
  let ?s1 = "fst (analyze_article_sentiment (stub_env Raises) (init_state 1000) sample_article)"
  have o: "0 \<le> oversleep (stub_env Raises)"
    by (simp add: stub_env_def)
  have first: "last_request_time ?s1 = 1000" "clock ?s1 = 1001" "min_request_interval ?s1 = 5"
    by (simp_all add: analyze_article_sentiment_state send_request_fields rate_limit_fields
        init_state_def stub_env_fields)
  have second: "last_request_time
     (fst (analyze_article_sentiment (stub_env Raises) ?s1 sample_article)) = 1005"
    by (simp add: analyze_article_sentiment_state [of _ ?s1] send_request_fields
        rate_limit_fields first stub_env_fields)
  have early: "clock ?s1 - last_request_time ?s1 < min_request_interval ?s1"
    by (simp add: first)
  from rate_limit_spacing [OF o, of ?s1 sample_article "[]" "[]" sample_article] early
  have wait: "1001 + (5 - (1001 - 1000)) \<le> clock (rate_limit (stub_env Raises) ?s1)"
    by (simp add: first)
  from rate_limit_spacing [OF o, of "init_state 1000" sample_article "[]" "[]" sample_article]
  have "1000 + min_request_interval (init_state 1000)
     \<le> last_request_time (fst (analyze_article_sentiment (stub_env Raises) ?s1 sample_article))"
    by (simp add: first)
  with o first second early wait show ?thesis
    by simp
qed

text \<open>
  C10. For every list of judgments the report has \<open>total_articles = analyzed_articles\<close>,
  and both are the length of the list (zero for the empty report): the total never counts
  articles that were dropped before the synthesis.
\<close>

theorem report_counts_agree:
  "total_articles (snd (generate_final_report ev s js name)) =
     analyzed_articles (snd (generate_final_report ev s js name)) \<and>
   analyzed_articles (snd (generate_final_report ev s js name)) = length js"
proof (cases "js = []")
  case True
  then show ?thesis
    by (simp add: generate_final_report_empty create_empty_report_def)
next
  case False
  from generate_final_report_nonempty [OF False, of ev s name] show ?thesis
    by auto
qed

end
